theory Spec2Isabelle
  imports Main "HOL-Library.Sublist"
begin

section \<open>Values of the host language\<close>

text \<open>
  A string is a list of characters, one \<open>char\<close> for each code point of a Python \<open>str\<close>
  (code points below 256), so that \<open>length\<close> is Python's \<open>len\<close>.

  An exception is kept with its class and the text that \<open>str(e)\<close> gives. The classes are
  those the sources raise, catch by name or provoke, and \<open>BaseException\<close> stands for every
  exception that does not derive from \<open>Exception\<close>: \<open>asyncio.CancelledError\<close> delivered at an
  \<open>await\<close>, \<open>KeyboardInterrupt\<close>, \<open>SystemExit\<close>.
\<close>

datatype exn =
    Exception string
  | ValueError string
  | AttributeError string
  | TypeError string
  | BaseException string

fun str_exn :: "exn \<Rightarrow> string" where
  "str_exn (Exception m) = m"
| "str_exn (ValueError m) = m"
| "str_exn (AttributeError m) = m"
| "str_exn (TypeError m) = m"
| "str_exn (BaseException m) = m"

text \<open>\<open>isinstance(e, Exception)\<close>: what a clause \<open>except Exception\<close> catches.\<close>

fun is_Exception :: "exn \<Rightarrow> bool" where
  "is_Exception (Exception m) = True"
| "is_Exception (ValueError m) = True"
| "is_Exception (AttributeError m) = True"
| "is_Exception (TypeError m) = True"
| "is_Exception (BaseException m) = False"

text \<open>
  A value that may be \<open>None\<close>: a JSON \<open>null\<close> decodes to \<open>None\<close>. \<open>py_str\<close> is what an
  f-string prints for it and \<open>truthy\<close> is its truth value.
\<close>

datatype 'a nullable = Null | Val 'a

definition py_str :: "string nullable \<Rightarrow> string" where
  "py_str v = (case v of Null \<Rightarrow> ''None'' | Val s \<Rightarrow> s)"

definition truthy :: "string nullable \<Rightarrow> bool" where
  "truthy v = (case v of Null \<Rightarrow> False | Val s \<Rightarrow> s \<noteq> [])"

text \<open>The exceptions that \<open>None\<close> provokes where the handlers expect a dict, a sized value or a list.\<close>

definition none_has_no_get :: exn where
  "none_has_no_get = AttributeError (CHR 0x27 # ''NoneType' object has no attribute 'get'' @ [CHR 0x27])"

definition none_has_no_len :: exn where
  "none_has_no_len = TypeError (''object of type 'NoneType' has no len()'')"

definition none_not_iterable :: exn where
  "none_not_iterable = TypeError (CHR 0x27 # ''NoneType' object is not iterable'')"

text \<open>
  \<open>d.get(key, default)\<close> on a dict \<open>d\<close>: the field is \<open>None\<close> when the key is missing, and
  a key that is present with \<open>null\<close> gives \<open>None\<close>, not the default. \<open>obj_get\<close> is the same
  call on a value that may itself be \<open>None\<close>, and \<open>py_len\<close> is \<open>len\<close>.
\<close>

definition dict_get :: "'a nullable option \<Rightarrow> 'a nullable \<Rightarrow> 'a nullable" where
  "dict_get field dflt = (case field of None \<Rightarrow> dflt | Some v \<Rightarrow> v)"

definition obj_get :: "'r nullable \<Rightarrow> ('r \<Rightarrow> 'a nullable option) \<Rightarrow> 'a nullable \<Rightarrow> exn + 'a nullable" where
  "obj_get obj field dflt =
     (case obj of Null \<Rightarrow> Inl none_has_no_get | Val d \<Rightarrow> Inr (dict_get (field d) dflt))"

definition py_len :: "'a list nullable \<Rightarrow> exn + nat" where
  "py_len v = (case v of Null \<Rightarrow> Inl none_has_no_len | Val xs \<Rightarrow> Inr (length xs))"

text \<open>
  Decimal rendering of an integer, as an f-string prints it (for integers below the
  interpreter's limit on the number of digits, which every integer formatted here is).
\<close>

definition digit_char :: "nat \<Rightarrow> char" where
  "digit_char d = char_of (48 + d)"

fun str_nat :: "nat \<Rightarrow> string" where
  "str_nat n = (if n < 10 then [digit_char n] else str_nat (n div 10) @ [digit_char (n mod 10)])"

declare str_nat.simps [simp del]

definition str_int :: "int \<Rightarrow> string" where
  "str_int i = (if i < 0 then CHR ''-'' # str_nat (nat (- i)) else str_nat (nat i))"

text \<open>\<open>sep.join(xs)\<close> on a list of strings.\<close>

fun join :: "string \<Rightarrow> string list \<Rightarrow> string" where
  "join sep [] = []"
| "join sep [x] = x"
| "join sep (x # y # ys) = x @ sep @ join sep (y # ys)"

text \<open>
  \<open>int(s)\<close> on a string of code points below 256, with \<open>None\<close> for the \<open>ValueError\<close> that
  \<open>int\<close> raises. Whitespace around the number is dropped (the ASCII whitespace and, among
  the other code points below 256, U+0085 and U+00A0); one sign is allowed; the digits are
  the ASCII digits (no other code point below 256 is a decimal digit), they may be grouped
  by single underscores, and there may be at most \<open>max_str_digits\<close> of them.
\<close>

definition is_space :: "char \<Rightarrow> bool" where
  "is_space c = ((of_char c :: nat) \<in> set [9, 10, 11, 12, 13, 32, 133, 160])"

definition strip :: "string \<Rightarrow> string" where
  "strip s = rev (dropWhile is_space (rev (dropWhile is_space s)))"

definition is_digit :: "char \<Rightarrow> bool" where
  "is_digit c = (48 \<le> (of_char c :: nat) \<and> (of_char c :: nat) \<le> 57)"

definition digit_val :: "char \<Rightarrow> nat" where
  "digit_val c = of_char c - 48"

text \<open>
  \<open>parse_digits acc prev s\<close>: \<open>prev\<close> tells whether the character before \<open>s\<close> was a digit,
  so that an underscore is accepted only between two digits.
\<close>

fun parse_digits :: "nat \<Rightarrow> bool \<Rightarrow> string \<Rightarrow> nat option" where
  "parse_digits acc prev [] = (if prev then Some acc else None)"
| "parse_digits acc prev (c # cs) =
     (if is_digit c then parse_digits (10 * acc + digit_val c) True cs
      else if c = CHR ''_'' \<and> prev \<and> cs \<noteq> [] then parse_digits acc False cs
      else None)"

definition max_str_digits :: nat where
  "max_str_digits = 4300"

definition parse_unsigned :: "string \<Rightarrow> nat option" where
  "parse_unsigned s =
     (if length (filter is_digit s) > max_str_digits then None else parse_digits 0 False s)"

definition py_int :: "string \<Rightarrow> int option" where
  "py_int s =
     (case strip s of
        [] \<Rightarrow> None
      | c # cs \<Rightarrow>
          if c = CHR ''-'' then map_option (\<lambda>n. - int n) (parse_unsigned cs)
          else if c = CHR ''+'' then map_option int (parse_unsigned cs)
          else map_option int (parse_unsigned (c # cs)))"

section \<open>Configuration and process context\<close>

record AppConfig =
  groq_api_key :: string
  firecrawl_api_key :: string
  groq_model :: string
  default_search_limit :: int
  request_timeout :: int

text \<open>The dataclass constructor as \<open>app_lifespan\<close> calls it: the last two fields take their defaults.\<close>

definition AppConfig_init :: "string \<Rightarrow> string \<Rightarrow> string \<Rightarrow> AppConfig" where
  "AppConfig_init gk fk gm =
     \<lparr>groq_api_key = gk, firecrawl_api_key = fk, groq_model = gm,
      default_search_limit = 5, request_timeout = 30\<rparr>"

record GroqService =
  g_api_key :: string
  g_model :: string
  g_base_url :: string

definition GroqService_init :: "string \<Rightarrow> string \<Rightarrow> GroqService" where
  "GroqService_init k m = \<lparr>g_api_key = k, g_model = m, g_base_url = ''https://api.groq.com/v1''\<rparr>"

record FirecrawlService =
  f_api_key :: string
  f_base_url :: string

definition FirecrawlService_init :: "string \<Rightarrow> FirecrawlService" where
  "FirecrawlService_init k = \<lparr>f_api_key = k, f_base_url = ''https://api.firecrawl.com/v1''\<rparr>"

record AppContext =
  config :: AppConfig
  groq_service :: GroqService
  firecrawl_service :: FirecrawlService

section \<open>Effects\<close>

text \<open>
  What a handler does besides returning is a trace of events, in the order the code
  performs them: a progress report that is awaited, a line printed, one event for each
  request sent to an upstream service (the service object holds the endpoint, the key and
  the model; the remaining request fields are constants), and one event for each call of
  \<open>ctx.info\<close>. The handlers call \<open>ctx.info\<close>, a coroutine function, without awaiting it: the
  call builds a coroutine that never runs, so an \<open>Info\<close> event records the call and no log
  line is emitted. \<open>effects\<close> keeps the events that do have an effect.
  Progress reports are taken to return normally.
\<close>

datatype event =
    Info string
  | Progress int int
  | Print string
  | ScrapeCall FirecrawlService string
  | SearchCall FirecrawlService string int
  | GenerateCall GroqService string

fun is_effect :: "event \<Rightarrow> bool" where
  "is_effect (Info m) = False"
| "is_effect (Progress a b) = True"
| "is_effect (Print m) = True"
| "is_effect (ScrapeCall s u) = True"
| "is_effect (SearchCall s q n) = True"
| "is_effect (GenerateCall s p) = True"

definition effects :: "event list \<Rightarrow> event list" where
  "effects tr = filter is_effect tr"

text \<open>
  The bodies the upstream services send with status 200: objects of the documented
  shape, in which every key may be missing and every value may be \<open>null\<close>, the scrape body
  and each search result included.
\<close>

record Metadata =
  meta_title :: "string nullable option"
  meta_description :: "string nullable option"
  meta_author :: "string nullable option"
  meta_published_date :: "string nullable option"

text \<open>The empty dict \<open>{}\<close> that stands in for missing metadata.\<close>

definition empty_metadata :: Metadata where
  "empty_metadata =
     \<lparr>meta_title = None, meta_description = None, meta_author = None, meta_published_date = None\<rparr>"

record ScrapeResult =
  sr_text :: "string nullable option"
  sr_metadata :: "Metadata nullable option"
  sr_links :: "string list nullable option"

record SearchItem =
  item_title :: "string nullable option"
  item_url :: "string nullable option"
  item_snippet :: "string nullable option"

text \<open>
  What one request comes back with: a response with its status code, its body text and
  what decoding the body gives (the decoded value, or the exception that \<open>response.json()\<close>
  or the indexing of its result raises), or no response at all (the \<open>await\<close> raised: a
  transport error, or a cancellation).
\<close>

datatype 'a reply = Reply int string "exn + 'a" | NoReply exn

text \<open>
  The upstream services are arbitrary: a reply may depend on the request and on everything
  that happened before it.
\<close>

record upstream =
  scrape_reply :: "event list \<Rightarrow> FirecrawlService \<Rightarrow> string \<Rightarrow> ScrapeResult nullable reply"
  search_reply :: "event list \<Rightarrow> FirecrawlService \<Rightarrow> string \<Rightarrow> int \<Rightarrow> SearchItem nullable list nullable reply"
  generate_reply :: "event list \<Rightarrow> GroqService \<Rightarrow> string \<Rightarrow> string nullable reply"

section \<open>Scrape/search client\<close>

definition firecrawl_scrape_website ::
  "upstream \<Rightarrow> FirecrawlService \<Rightarrow> event list \<Rightarrow> string
     \<Rightarrow> event list \<times> (exn + ScrapeResult nullable)" where
  "firecrawl_scrape_website up self tr url_arg =
     (tr @ [ScrapeCall self url_arg],
      case scrape_reply up tr self url_arg of
        NoReply e \<Rightarrow> Inl e
      | Reply status_code body decoded \<Rightarrow>
          if status_code \<noteq> 200
          then Inl (Exception (''Firecrawl API error: '' @ str_int status_code @ '' - '' @ body))
          else decoded)"

definition firecrawl_search_web ::
  "upstream \<Rightarrow> FirecrawlService \<Rightarrow> event list \<Rightarrow> string \<Rightarrow> int
     \<Rightarrow> event list \<times> (exn + SearchItem nullable list nullable)" where
  "firecrawl_search_web up self tr query limit =
     (tr @ [SearchCall self query limit],
      case search_reply up tr self query limit of
        NoReply e \<Rightarrow> Inl e
      | Reply status_code body decoded \<Rightarrow>
          if status_code \<noteq> 200
          then Inl (Exception (''Firecrawl API error: '' @ str_int status_code @ '' - '' @ body))
          else decoded)"

section \<open>Generation client\<close>

definition groq_generate_text ::
  "upstream \<Rightarrow> GroqService \<Rightarrow> event list \<Rightarrow> string \<Rightarrow> event list \<times> (exn + string nullable)" where
  "groq_generate_text up self tr prompt =
     (tr @ [GenerateCall self prompt],
      case generate_reply up tr self prompt of
        NoReply e \<Rightarrow> Inl e
      | Reply status_code body decoded \<Rightarrow>
          if status_code \<noteq> 200
          then Inl (Exception (''Groq API error: '' @ str_int status_code @ '' - '' @ body))
          else decoded)"

definition summarize_prompt :: "string \<Rightarrow> int \<Rightarrow> string" where
  "summarize_prompt content max_length =
     ''Please summarize the following content in a concise way, maximum '' @ str_int max_length
       @ '' words:\<newline>\<newline>'' @ content"

definition groq_summarize_content ::
  "upstream \<Rightarrow> GroqService \<Rightarrow> event list \<Rightarrow> string \<Rightarrow> int
     \<Rightarrow> event list \<times> (exn + string nullable)" where
  "groq_summarize_content up self tr content max_length =
     groq_generate_text up self tr (summarize_prompt content max_length)"

section \<open>Startup\<close>

text \<open>
  \<open>app_lifespan\<close> up to its \<open>yield\<close>: the environment is a map from variable names to
  values, and the result is the exception raised or the context handed to the server,
  with what was printed on the way.
\<close>

definition app_lifespan :: "(string \<rightharpoonup> string) \<Rightarrow> event list \<times> (exn + AppContext)" where
  "app_lifespan environ =
     (let groq_key = environ ''GROQ_API_KEY'';
          firecrawl_key = environ ''FIRECRAWL_API_KEY'';
          model = (case environ ''GROQ_MODEL'' of None \<Rightarrow> ''llama3-70b-8192'' | Some m \<Rightarrow> m)
      in if groq_key = None \<or> groq_key = Some []
         then ([], Inl (ValueError ''GROQ_API_KEY environment variable is required''))
         else if firecrawl_key = None \<or> firecrawl_key = Some []
         then ([], Inl (ValueError ''FIRECRAWL_API_KEY environment variable is required''))
         else
           let cfg = AppConfig_init (the groq_key) (the firecrawl_key) model
           in ([Print (''Initialized MCP server with Groq model: '' @ groq_model cfg)],
               Inr \<lparr>config = cfg,
                    groq_service = GroqService_init (groq_api_key cfg) (groq_model cfg),
                    firecrawl_service = FirecrawlService_init (firecrawl_api_key cfg)\<rparr>))"

section \<open>Handlers\<close>

text \<open>
  A handler returns the trace of its effects and what the protocol layer receives:
  \<open>Inr\<close> the value that the handler returned (a string, or \<open>None\<close>), \<open>Inl\<close> an exception that
  left the handler. \<open>except_Exception\<close> is the clause
  \<open>except Exception as e: return f"<what>{str(e)}"\<close> around a \<open>try\<close> block: it catches the
  exceptions of class \<open>Exception\<close> and lets the others pass.
\<close>

definition except_Exception ::
  "string \<Rightarrow> event list \<times> (exn + string nullable) \<Rightarrow> event list \<times> (exn + string nullable)" where
  "except_Exception what r =
     (case r of
        (tr, Inl e) \<Rightarrow> if is_Exception e then (tr, Inr (Val (what @ str_exn e))) else (tr, Inl e)
      | (tr, Inr v) \<Rightarrow> (tr, Inr v))"

subsection \<open>Resources\<close>

definition get_website_content ::
  "upstream \<Rightarrow> AppContext \<Rightarrow> string \<Rightarrow> event list \<times> (exn + string nullable)" where
  "get_website_content up ctx url_arg =
     (let firecrawl = firecrawl_service ctx;
          tr = [Info (''Scraping website: '' @ url_arg)]
      in except_Exception ''Error scraping website: ''
           (case firecrawl_scrape_website up firecrawl tr url_arg of
              (tr1, Inl e) \<Rightarrow> (tr1, Inl e)
            | (tr1, Inr result) \<Rightarrow> (tr1, obj_get result sr_text (Val ''No content found''))))"

text \<open>
  The loop of \<open>search_web\<close> over \<open>enumerate(results, 1)\<close>: five lines for each result, and
  the \<open>AttributeError\<close> of the first result that is \<open>None\<close>.
\<close>

fun format_results :: "(nat \<times> SearchItem nullable) list \<Rightarrow> exn + string list" where
  "format_results [] = Inr []"
| "format_results ((i, result) # rest) =
     (case result of
        Null \<Rightarrow> Inl none_has_no_get
      | Val item \<Rightarrow>
          (case format_results rest of
             Inl e \<Rightarrow> Inl e
           | Inr formatted \<Rightarrow>
               Inr ([''Result '' @ str_int (int i) @ '':'',
                     ''Title: '' @ py_str (dict_get (item_title item) (Val ''No title'')),
                     ''URL: '' @ py_str (dict_get (item_url item) (Val ''No URL'')),
                     ''Snippet: '' @ py_str (dict_get (item_snippet item) (Val ''No snippet'')),
                     []] @ formatted)))"

text \<open>
  The first \<open>try\<close> block of \<open>search_web\<close>: \<open>int(limit) if limit else config.default_search_limit\<close>,
  with the default again when \<open>int\<close> raises \<open>ValueError\<close>. The builtin \<open>int\<close> is a parameter
  of the handler (\<open>None\<close> for \<open>ValueError\<close>); \<open>py_int\<close> above is that builtin on the strings of
  this theory.
\<close>

definition parse_limit :: "(string \<Rightarrow> int option) \<Rightarrow> AppConfig \<Rightarrow> string \<Rightarrow> int" where
  "parse_limit int_builtin cfg limit =
     (if limit \<noteq> []
      then (case int_builtin limit of Some n \<Rightarrow> n | None \<Rightarrow> default_search_limit cfg)
      else default_search_limit cfg)"

definition search_web ::
  "upstream \<Rightarrow> (string \<Rightarrow> int option) \<Rightarrow> AppContext \<Rightarrow> string \<Rightarrow> string
     \<Rightarrow> event list \<times> (exn + string nullable)" where
  "search_web up int_builtin ctx query limit =
     (let firecrawl = firecrawl_service ctx;
          cfg = config ctx;
          limit_int = parse_limit int_builtin cfg limit;
          tr = [Info (''Searching web for: '' @ query @ '' with limit '' @ str_int limit_int)]
      in except_Exception ''Error searching web: ''
           (case firecrawl_search_web up firecrawl tr query limit_int of
              (tr1, Inl e) \<Rightarrow> (tr1, Inl e)
            | (tr1, Inr results) \<Rightarrow>
                (case results of
                   Null \<Rightarrow> (tr1, Inl none_not_iterable)
                 | Val found \<Rightarrow>
                     (case format_results (enumerate 1 found) of
                        Inl e \<Rightarrow> (tr1, Inl e)
                      | Inr formatted_results \<Rightarrow> (tr1, Inr (Val (join ''\<newline>'' formatted_results)))))))"

definition get_website_metadata ::
  "upstream \<Rightarrow> AppContext \<Rightarrow> string \<Rightarrow> event list \<times> (exn + string nullable)" where
  "get_website_metadata up ctx url_arg =
     (let firecrawl = firecrawl_service ctx;
          tr = [Info (''Getting metadata for website: '' @ url_arg)]
      in except_Exception ''Error getting metadata: ''
           (case firecrawl_scrape_website up firecrawl tr url_arg of
              (tr1, Inl e) \<Rightarrow> (tr1, Inl e)
            | (tr1, Inr result) \<Rightarrow>
                (case obj_get result sr_metadata (Val empty_metadata) of
                   Inl e \<Rightarrow> (tr1, Inl e)
                 | Inr Null \<Rightarrow> (tr1, Inl none_has_no_get)
                 | Inr (Val md) \<Rightarrow>
                     (tr1, Inr (Val (join ''\<newline>''
                        [''Title: '' @ py_str (dict_get (meta_title md) (Val ''No title'')),
                         ''Description: '' @ py_str (dict_get (meta_description md) (Val ''No description'')),
                         ''Author: '' @ py_str (dict_get (meta_author md) (Val ''No author'')),
                         ''Published: '' @ py_str (dict_get (meta_published_date md) (Val ''No date''))]))))))"

subsection \<open>Tools\<close>

definition generate_content ::
  "upstream \<Rightarrow> AppContext \<Rightarrow> string \<Rightarrow> event list \<times> (exn + string nullable)" where
  "generate_content up ctx prompt =
     (let groq = groq_service ctx;
          tr = [Info (''Generating content with prompt: '' @ take 50 prompt @ ''...'')]
      in except_Exception ''Error generating content: '' (groq_generate_text up groq tr prompt))"

definition summarize_text ::
  "upstream \<Rightarrow> AppContext \<Rightarrow> string \<Rightarrow> int \<Rightarrow> event list \<times> (exn + string nullable)" where
  "summarize_text up ctx content max_length =
     (let groq = groq_service ctx;
          tr = [Info (''Summarizing content of length '' @ str_int (int (length content))
                       @ '' with max length '' @ str_int max_length)]
      in except_Exception ''Error summarizing content: ''
           (groq_summarize_content up groq tr content max_length))"

text \<open>
  In \<open>analyze_website\<close> the report lines are built in the order of the list display, so the
  first of \<open>metadata.get\<close>, \<open>len(content)\<close> and \<open>len(links)\<close> that meets a \<open>None\<close> raises. A
  summary that is \<open>None\<close> is appended to the list, and \<open>join\<close> then raises after the last
  progress report.
\<close>

definition join_found_none :: exn where
  "join_found_none = TypeError ''sequence item 6: expected str instance, NoneType found''"

definition analyze_website ::
  "upstream \<Rightarrow> AppContext \<Rightarrow> string \<Rightarrow> bool \<Rightarrow> event list \<times> (exn + string nullable)" where
  "analyze_website up ctx url_arg include_summary =
     (let firecrawl = firecrawl_service ctx;
          groq = groq_service ctx;
          tr = [Info (''Analyzing website: '' @ url_arg), Progress 0 3]
      in except_Exception ''Error analyzing website: ''
           (case firecrawl_scrape_website up firecrawl tr url_arg of
              (tr1, Inl e) \<Rightarrow> (tr1, Inl e)
            | (tr1, Inr Null) \<Rightarrow> (tr1, Inl none_has_no_get)
            | (tr1, Inr (Val scrape_result)) \<Rightarrow>
                (let content = dict_get (sr_text scrape_result) (Val []);
                     metadata = dict_get (sr_metadata scrape_result) (Val empty_metadata);
                     tr2 = tr1 @ [Progress 1 3]
                 in case metadata of
                      Null \<Rightarrow> (tr2, Inl none_has_no_get)
                    | Val md \<Rightarrow>
                        (case py_len content of
                           Inl e \<Rightarrow> (tr2, Inl e)
                         | Inr content_length \<Rightarrow>
                             (case py_len (dict_get (sr_links scrape_result) (Val [])) of
                                Inl e \<Rightarrow> (tr2, Inl e)
                              | Inr links_found \<Rightarrow>
                                  (let analysis =
                                         [''Website Analysis: '' @ url_arg,
                                          ''Title: '' @ py_str (dict_get (meta_title md) (Val ''No title'')),
                                          ''Description: ''
                                            @ py_str (dict_get (meta_description md) (Val ''No description'')),
                                          ''Content Length: '' @ str_int (int content_length) @ '' characters'',
                                          ''Links Found: '' @ str_int (int links_found)]
                                   in if include_summary \<and> truthy content
                                      then (case groq_summarize_content up groq (tr2 @ [Progress 2 3])
                                                   (py_str content) 500 of
                                              (tr3, Inl e) \<Rightarrow> (tr3, Inl e)
                                            | (tr3, Inr Null) \<Rightarrow> (tr3 @ [Progress 3 3], Inl join_found_none)
                                            | (tr3, Inr (Val summary)) \<Rightarrow>
                                                (tr3 @ [Progress 3 3],
                                                 Inr (Val (join ''\<newline>''
                                                        (analysis @ [''\<newline>Summary:'', summary])))))
                                      else (tr2 @ [Progress 3 3],
                                            Inr (Val (join ''\<newline>'' analysis)))))))))"

text \<open>
  The body of the loop of \<open>research_topic\<close> for the result at index \<open>i\<close>: the trace after
  it and either the lines it appends to \<open>research_data\<close> or the exception that leaves the
  loop. \<open>result.get("url")\<close> is outside the inner \<open>try\<close>; an item without a URL is skipped by
  \<open>continue\<close>, before the progress report; \<open>inner_except\<close> is the clause
  \<open>except Exception as inner_e\<close> of the inner \<open>try\<close>.
\<close>

definition inner_except :: "string \<Rightarrow> event list \<Rightarrow> exn \<Rightarrow> event list \<times> (exn + string list)" where
  "inner_except u tr inner_e =
     (if is_Exception inner_e
      then (tr, Inr [''Error analyzing '' @ u @ '': '' @ str_exn inner_e])
      else (tr, Inl inner_e))"

definition analyze_result ::
  "upstream \<Rightarrow> AppContext \<Rightarrow> int \<Rightarrow> nat \<Rightarrow> SearchItem nullable \<Rightarrow> event list
     \<Rightarrow> event list \<times> (exn + string list)" where
  "analyze_result up ctx depth i result tr =
     (case result of
        Null \<Rightarrow> (tr, Inl none_has_no_get)
      | Val item \<Rightarrow>
          (case dict_get (item_url item) Null of
             Null \<Rightarrow> (tr, Inr [])
           | Val u \<Rightarrow>
               if u = [] then (tr, Inr [])
               else
                 (let tr1 = tr @ [Info (''Analyzing result '' @ str_int (int i + 1) @ '': '' @ u),
                                  Progress (int i + 1) (depth + 1)]
                  in case firecrawl_scrape_website up (firecrawl_service ctx) tr1 u of
                       (tr2, Inl inner_e) \<Rightarrow> inner_except u tr2 inner_e
                     | (tr2, Inr scrape_result) \<Rightarrow>
                         (case obj_get scrape_result sr_text (Val []) of
                            Inl inner_e \<Rightarrow> inner_except u tr2 inner_e
                          | Inr content \<Rightarrow>
                              if truthy content
                              then (case groq_summarize_content up (groq_service ctx) tr2
                                           (py_str content) 300 of
                                      (tr3, Inl inner_e) \<Rightarrow> inner_except u tr3 inner_e
                                    | (tr3, Inr summary) \<Rightarrow>
                                        (tr3,
                                         Inr [''Source '' @ str_int (int i + 1) @ '': ''
                                                @ py_str (dict_get (item_title item) (Val ''No title'')),
                                              ''URL: '' @ u,
                                              ''Summary: '' @ py_str summary,
                                              []]))
                              else (tr2, Inr [])))))"

fun research_loop ::
  "upstream \<Rightarrow> AppContext \<Rightarrow> int \<Rightarrow> (nat \<times> SearchItem nullable) list \<Rightarrow> event list \<Rightarrow> string list
     \<Rightarrow> event list \<times> (exn + string list)" where
  "research_loop up ctx depth [] tr research_data = (tr, Inr research_data)"
| "research_loop up ctx depth ((i, result) # rest) tr research_data =
     (case analyze_result up ctx depth i result tr of
        (tr', Inl e) \<Rightarrow> (tr', Inl e)
      | (tr', Inr new_lines) \<Rightarrow> research_loop up ctx depth rest tr' (research_data @ new_lines))"

definition synthesis_prompt :: "string \<Rightarrow> string \<Rightarrow> string" where
  "synthesis_prompt topic research_text =
     ''Based on the following research on '' @ [CHR 0x27] @ topic @ [CHR 0x27]
       @ '', provide a comprehensive analysis:\<newline>\<newline>'' @ research_text"

definition research_topic ::
  "upstream \<Rightarrow> AppContext \<Rightarrow> string \<Rightarrow> int \<Rightarrow> event list \<times> (exn + string nullable)" where
  "research_topic up ctx topic depth =
     (let firecrawl = firecrawl_service ctx;
          groq = groq_service ctx;
          tr = [Info (''Researching topic: '' @ topic @ '' with depth '' @ str_int depth),
                Info ''Searching web...'',
                Progress 0 (depth + 1)]
      in except_Exception ''Error researching topic: ''
           (case firecrawl_search_web up firecrawl tr topic depth of
              (tr1, Inl e) \<Rightarrow> (tr1, Inl e)
            | (tr1, Inr Null) \<Rightarrow> (tr1, Inr (Val (''No search results found for topic: '' @ topic)))
            | (tr1, Inr (Val search_results)) \<Rightarrow>
                if search_results = []
                then (tr1, Inr (Val (''No search results found for topic: '' @ topic)))
                else
                  (case research_loop up ctx depth (enumerate 0 search_results) tr1 [] of
                     (tr2, Inl e) \<Rightarrow> (tr2, Inl e)
                   | (tr2, Inr research_data) \<Rightarrow>
                       if research_data \<noteq> []
                       then
                         (let research_text = join ''\<newline>'' research_data
                          in case groq_generate_text up groq tr2 (synthesis_prompt topic research_text) of
                               (tr3, Inl e) \<Rightarrow> (tr3, Inl e)
                             | (tr3, Inr final_analysis) \<Rightarrow>
                                 (tr3,
                                  Inr (Val (''# Research on: '' @ topic @ ''\<newline>\<newline>'' @ py_str final_analysis
                                             @ ''\<newline>\<newline>## Sources\<newline>\<newline>'' @ research_text))))
                       else (tr2, Inr (Val (''Could not gather meaningful research data on topic: ''
                                              @ topic))))))"

text \<open>The events of \<open>research_topic\<close> before its search request, and up to that request.\<close>

definition research_prelude :: "string \<Rightarrow> int \<Rightarrow> event list" where
  "research_prelude topic depth =
     [Info (''Researching topic: '' @ topic @ '' with depth '' @ str_int depth),
      Info ''Searching web...'',
      Progress 0 (depth + 1)]"

definition search_trace :: "AppContext \<Rightarrow> string \<Rightarrow> int \<Rightarrow> event list" where
  "search_trace ctx topic depth =
     research_prelude topic depth @ [SearchCall (firecrawl_service ctx) topic depth]"

text \<open>
  The loop of \<open>research_topic\<close> when the search returned \<open>items\<close>: its final state, and the
  lines it gathered when no exception left it.
\<close>

definition research_gathered ::
  "upstream \<Rightarrow> AppContext \<Rightarrow> string \<Rightarrow> int \<Rightarrow> SearchItem nullable list
     \<Rightarrow> event list \<times> (exn + string list)" where
  "research_gathered up ctx topic depth items =
     research_loop up ctx depth (enumerate 0 items) (search_trace ctx topic depth) []"

definition research_lines ::
  "upstream \<Rightarrow> AppContext \<Rightarrow> string \<Rightarrow> int \<Rightarrow> SearchItem nullable list \<Rightarrow> string list" where
  "research_lines up ctx topic depth items =
     (case snd (research_gathered up ctx topic depth items) of Inl e \<Rightarrow> [] | Inr research_data \<Rightarrow> research_data)"

section \<open>What happened to each search result\<close>

text \<open>
  A view of the loop of \<open>research_topic\<close>, read off the branches of its body: what
  happened to one search result, the lines that this adds to \<open>research_data\<close>, the events it
  emits and the exception, if any, with which it leaves the loop. An exception of class
  \<open>Exception\<close> in the scrape or the summary is a failure of that source; any other
  exception there escapes the inner \<open>try\<close>, and so does the \<open>AttributeError\<close> of a search result
  that is \<open>None\<close>. The lemmas \<open>analyze_result_outcome\<close> and \<open>research_loop_outcomes\<close> below show
  that the loop computes exactly this.
\<close>

datatype outcome =
    Skipped
  | ScrapeFailed string exn
  | EmptyContent string
  | SummarizeFailed string string exn
  | Gathered string string string "string nullable"
  | BadItem
  | ScrapeEscaped string exn
  | SummarizeEscaped string string exn
  | NotReached

definition item_prelude :: "int \<Rightarrow> nat \<Rightarrow> string \<Rightarrow> event list" where
  "item_prelude depth i u =
     [Info (''Analyzing result '' @ str_int (int i + 1) @ '': '' @ u),
      Progress (int i + 1) (depth + 1)]"

definition scrape_outcome :: "string \<Rightarrow> exn \<Rightarrow> outcome" where
  "scrape_outcome u e = (if is_Exception e then ScrapeFailed u e else ScrapeEscaped u e)"

definition summarize_outcome :: "string \<Rightarrow> string \<Rightarrow> exn \<Rightarrow> outcome" where
  "summarize_outcome u c e = (if is_Exception e then SummarizeFailed u c e else SummarizeEscaped u c e)"

definition item_outcome ::
  "upstream \<Rightarrow> AppContext \<Rightarrow> int \<Rightarrow> nat \<Rightarrow> SearchItem nullable \<Rightarrow> event list \<Rightarrow> outcome" where
  "item_outcome up ctx depth i result tr =
     (case result of
        Null \<Rightarrow> BadItem
      | Val item \<Rightarrow>
          (case dict_get (item_url item) Null of
             Null \<Rightarrow> Skipped
           | Val u \<Rightarrow>
               if u = [] then Skipped
               else
                 (case snd (firecrawl_scrape_website up (firecrawl_service ctx)
                              (tr @ item_prelude depth i u) u) of
                    Inl e \<Rightarrow> scrape_outcome u e
                  | Inr scrape_result \<Rightarrow>
                      (case obj_get scrape_result sr_text (Val []) of
                         Inl e \<Rightarrow> scrape_outcome u e
                       | Inr content \<Rightarrow>
                           if \<not> truthy content then EmptyContent u
                           else
                             (case snd (groq_summarize_content up (groq_service ctx)
                                          (tr @ item_prelude depth i u
                                             @ [ScrapeCall (firecrawl_service ctx) u])
                                          (py_str content) 300) of
                                Inl e \<Rightarrow> summarize_outcome u (py_str content) e
                              | Inr summary \<Rightarrow>
                                  Gathered (py_str (dict_get (item_title item) (Val ''No title'')))
                                    u (py_str content) summary)))))"

fun outcome_lines :: "nat \<Rightarrow> outcome \<Rightarrow> string list" where
  "outcome_lines i Skipped = []"
| "outcome_lines i (ScrapeFailed u e) = [''Error analyzing '' @ u @ '': '' @ str_exn e]"
| "outcome_lines i (EmptyContent u) = []"
| "outcome_lines i (SummarizeFailed u c e) = [''Error analyzing '' @ u @ '': '' @ str_exn e]"
| "outcome_lines i (Gathered t u c s) =
     [''Source '' @ str_int (int i + 1) @ '': '' @ t, ''URL: '' @ u, ''Summary: '' @ py_str s, []]"
| "outcome_lines i BadItem = []"
| "outcome_lines i (ScrapeEscaped u e) = []"
| "outcome_lines i (SummarizeEscaped u c e) = []"
| "outcome_lines i NotReached = []"

fun outcome_events :: "AppContext \<Rightarrow> int \<Rightarrow> nat \<Rightarrow> outcome \<Rightarrow> event list" where
  "outcome_events ctx depth i Skipped = []"
| "outcome_events ctx depth i (ScrapeFailed u e) =
     item_prelude depth i u @ [ScrapeCall (firecrawl_service ctx) u]"
| "outcome_events ctx depth i (EmptyContent u) =
     item_prelude depth i u @ [ScrapeCall (firecrawl_service ctx) u]"
| "outcome_events ctx depth i (SummarizeFailed u c e) =
     item_prelude depth i u @ [ScrapeCall (firecrawl_service ctx) u,
                               GenerateCall (groq_service ctx) (summarize_prompt c 300)]"
| "outcome_events ctx depth i (Gathered t u c s) =
     item_prelude depth i u @ [ScrapeCall (firecrawl_service ctx) u,
                               GenerateCall (groq_service ctx) (summarize_prompt c 300)]"
| "outcome_events ctx depth i BadItem = []"
| "outcome_events ctx depth i (ScrapeEscaped u e) =
     item_prelude depth i u @ [ScrapeCall (firecrawl_service ctx) u]"
| "outcome_events ctx depth i (SummarizeEscaped u c e) =
     item_prelude depth i u @ [ScrapeCall (firecrawl_service ctx) u,
                               GenerateCall (groq_service ctx) (summarize_prompt c 300)]"
| "outcome_events ctx depth i NotReached = []"

text \<open>The exception with which an outcome leaves the loop.\<close>

fun outcome_abort :: "outcome \<Rightarrow> exn option" where
  "outcome_abort BadItem = Some none_has_no_get"
| "outcome_abort (ScrapeEscaped u e) = Some e"
| "outcome_abort (SummarizeEscaped u c e) = Some e"
| "outcome_abort Skipped = None"
| "outcome_abort (ScrapeFailed u e) = None"
| "outcome_abort (EmptyContent u) = None"
| "outcome_abort (SummarizeFailed u c e) = None"
| "outcome_abort (Gathered t u c s) = None"
| "outcome_abort NotReached = None"

fun first_abort :: "outcome list \<Rightarrow> exn option" where
  "first_abort [] = None"
| "first_abort (oc # ocs) = (case outcome_abort oc of Some e \<Rightarrow> Some e | None \<Rightarrow> first_abort ocs)"

fun loop_outcomes ::
  "upstream \<Rightarrow> AppContext \<Rightarrow> int \<Rightarrow> (nat \<times> SearchItem nullable) list \<Rightarrow> event list \<Rightarrow> outcome list" where
  "loop_outcomes up ctx depth [] tr = []"
| "loop_outcomes up ctx depth ((i, result) # rest) tr =
     item_outcome up ctx depth i result tr
       # (case outcome_abort (item_outcome up ctx depth i result tr) of
            Some e \<Rightarrow> replicate (length rest) NotReached
          | None \<Rightarrow> loop_outcomes up ctx depth rest (fst (analyze_result up ctx depth i result tr)))"

definition research_outcomes ::
  "upstream \<Rightarrow> AppContext \<Rightarrow> string \<Rightarrow> int \<Rightarrow> SearchItem nullable list \<Rightarrow> outcome list" where
  "research_outcomes up ctx topic depth items =
     loop_outcomes up ctx depth (enumerate 0 items) (search_trace ctx topic depth)"

text \<open>A mandatory variable counts as missing when it is unset or empty.\<close>

definition key_missing :: "(string \<rightharpoonup> string) \<Rightarrow> string \<Rightarrow> bool" where
  "key_missing environ name = (environ name = None \<or> environ name = Some [])"


section \<open>Example context and upstream services\<close>

text \<open>
  A context as \<open>app_lifespan\<close> builds it, and an upstream that answers every search with
  the given items and every generation request with \<open>OK\<close>. Its scrape fails with status 500
  for the URL \<open>bad\<close>, is cancelled for the URL \<open>cancel\<close>, has no text for the URL \<open>blank\<close> and
  a \<open>null\<close> text for the URL \<open>null\<close>; every other URL has a page.
\<close>

definition demo_ctx :: AppContext where
  "demo_ctx = \<lparr>config = AppConfig_init ''gk'' ''fk'' ''llama3-70b-8192'',
      groq_service = GroqService_init ''gk'' ''llama3-70b-8192'',
      firecrawl_service = FirecrawlService_init ''fk''\<rparr>"

definition page :: "string \<Rightarrow> ScrapeResult" where
  "page t = \<lparr>sr_text = Some (Val t), sr_metadata = None, sr_links = None\<rparr>"

definition hit :: "string \<Rightarrow> string \<Rightarrow> SearchItem nullable" where
  "hit t u = Val \<lparr>item_title = Some (Val t), item_url = Some (Val u), item_snippet = None\<rparr>"

definition hit_without_url :: "string \<Rightarrow> SearchItem nullable" where
  "hit_without_url t = Val \<lparr>item_title = Some (Val t), item_url = None, item_snippet = None\<rparr>"

definition demo_up :: "SearchItem nullable list \<Rightarrow> upstream" where
  "demo_up items =
     \<lparr>scrape_reply = (\<lambda>h s u.
          if u = ''bad'' then Reply 500 ''down'' (Inl (Exception ''no body''))
          else if u = ''cancel'' then NoReply (BaseException ''cancelled'')
          else if u = ''blank''
          then Reply 200 ''{}'' (Inr (Val \<lparr>sr_text = None, sr_metadata = None, sr_links = None\<rparr>))
          else if u = ''null''
          then Reply 200 ''{..}'' (Inr (Val \<lparr>sr_text = Some Null, sr_metadata = None, sr_links = None\<rparr>))
          else Reply 200 ''{..}'' (Inr (Val (page (''text of '' @ u))))),
       search_reply = (\<lambda>h s q l. Reply 200 ''{..}'' (Inr (Val items))),
       generate_reply = (\<lambda>h s p. Reply 200 ''{..}'' (Inr (Val ''OK'')))\<rparr>"

text \<open>
  An upstream in which every request is answered with status 503, and one that differs
  from a given upstream only in answering every generation request with status 429.
\<close>

definition outage :: upstream where
  "outage =
     \<lparr>scrape_reply = (\<lambda>h s u. Reply 503 ''unavailable'' (Inl (Exception ''no body''))),
      search_reply = (\<lambda>h s q l. Reply 503 ''unavailable'' (Inl (Exception ''no body''))),
      generate_reply = (\<lambda>h s p. Reply 503 ''unavailable'' (Inl (Exception ''no body'')))\<rparr>"

definition failing_generation :: "upstream \<Rightarrow> upstream" where
  "failing_generation up =
     up\<lparr>generate_reply := (\<lambda>h s p. Reply 429 ''rate limited'' (Inl (Exception ''no body'')))\<rparr>"

text \<open>
  Four search results for the example upstream: the first has no URL and the scrape of
  the third fails.
\<close>

definition gap_items :: "SearchItem nullable list" where
  "gap_items = [hit_without_url ''T1'', hit ''T2'' ''a'', hit ''T3'' ''bad'', hit ''T4'' ''b'']"

section \<open>Properties\<close>

subsection \<open>The loop and its outcomes\<close>

lemma analyze_result_outcome:
  "analyze_result up ctx depth i result tr =
     (tr @ outcome_events ctx depth i (item_outcome up ctx depth i result tr),
      case outcome_abort (item_outcome up ctx depth i result tr) of
        Some e \<Rightarrow> Inl e
      | None \<Rightarrow> Inr (outcome_lines i (item_outcome up ctx depth i result tr)))"
  by (simp add: analyze_result_def item_outcome_def item_prelude_def Let_def inner_except_def
        scrape_outcome_def summarize_outcome_def obj_get_def
        firecrawl_scrape_website_def groq_summarize_content_def groq_generate_text_def
      split: nullable.splits reply.splits sum.splits)

lemma length_loop_outcomes: "length (loop_outcomes up ctx depth xs tr) = length xs"
  by (induction xs arbitrary: tr) (auto split: option.splits)

lemma not_reached_events:
  "concat (map (\<lambda>(i, oc). outcome_events ctx depth i oc) (zip ys (replicate n NotReached))) = []"
  by (auto dest!: set_zip_rightD)

lemma not_reached_lines:
  "concat (map (\<lambda>(i, oc). outcome_lines i oc) (zip ys (replicate n NotReached))) = []"
  by (auto dest!: set_zip_rightD)

lemma research_loop_outcomes:
  "research_loop up ctx depth xs tr rd =
     (tr @ concat (map (\<lambda>(i, oc). outcome_events ctx depth i oc)
                       (zip (map fst xs) (loop_outcomes up ctx depth xs tr))),
      case first_abort (loop_outcomes up ctx depth xs tr) of
        Some e \<Rightarrow> Inl e
      | None \<Rightarrow> Inr (rd @ concat (map (\<lambda>(i, oc). outcome_lines i oc)
                                     (zip (map fst xs) (loop_outcomes up ctx depth xs tr)))))"
proof (induction xs arbitrary: tr rd)
  case Nil
  show ?case by simp
next
  case (Cons x xs)
  obtain i result where x: "x = (i, result)" by (cases x)
  show ?case
  proof (cases "outcome_abort (item_outcome up ctx depth i result tr)")
    case None
    then show ?thesis
      by (simp add: x analyze_result_outcome Cons.IH split: option.splits)
  next
    case (Some e)
    then show ?thesis
      by (simp add: x analyze_result_outcome not_reached_events split: option.splits)
  qed
qed

lemma zip_upt_enumerate: "length ys = m \<Longrightarrow> zip [0..<m] ys = enumerate 0 ys"
  by (simp add: enumerate_eq_zip)

lemma length_research_outcomes:
  "length (research_outcomes up ctx topic depth items) = length items"
  by (simp add: research_outcomes_def length_loop_outcomes)

lemma gathered_trace:
  "fst (research_gathered up ctx topic depth items) =
     search_trace ctx topic depth
       @ concat (map (\<lambda>(j, oc). outcome_events ctx depth j oc)
                     (enumerate 0 (research_outcomes up ctx topic depth items)))"
  by (simp add: research_gathered_def research_outcomes_def research_loop_outcomes
        zip_upt_enumerate length_loop_outcomes split: option.splits)

lemma gathered_result:
  "snd (research_gathered up ctx topic depth items) =
     (case first_abort (research_outcomes up ctx topic depth items) of
        Some e \<Rightarrow> Inl e
      | None \<Rightarrow> Inr (concat (map (\<lambda>(j, oc). outcome_lines j oc)
                               (enumerate 0 (research_outcomes up ctx topic depth items)))))"
  by (simp add: research_gathered_def research_outcomes_def research_loop_outcomes
        zip_upt_enumerate length_loop_outcomes split: option.splits)

lemma research_lines_outcomes:
  "first_abort (research_outcomes up ctx topic depth items) = None \<Longrightarrow>
     research_lines up ctx topic depth items =
       concat (map (\<lambda>(j, oc). outcome_lines j oc)
                   (enumerate 0 (research_outcomes up ctx topic depth items)))"
  by (simp add: research_lines_def gathered_result)


lemma research_topic_found:
  assumes "search_reply up (research_prelude topic depth) (firecrawl_service ctx) topic depth
             = Reply 200 body (Inr (Val items))"
    and "items \<noteq> []"
  shows "research_topic up ctx topic depth =
     except_Exception ''Error researching topic: ''
       (case research_gathered up ctx topic depth items of
          (tr2, Inl e) \<Rightarrow> (tr2, Inl e)
        | (tr2, Inr rd) \<Rightarrow>
            if rd \<noteq> []
            then (case groq_generate_text up (groq_service ctx) tr2
                         (synthesis_prompt topic (join ''\<newline>'' rd)) of
                    (tr3, Inl e) \<Rightarrow> (tr3, Inl e)
                  | (tr3, Inr final_analysis) \<Rightarrow>
                      (tr3,
                       Inr (Val (''# Research on: '' @ topic @ ''\<newline>\<newline>'' @ py_str final_analysis
                                  @ ''\<newline>\<newline>## Sources\<newline>\<newline>'' @ join ''\<newline>'' rd))))
            else (tr2, Inr (Val (''Could not gather meaningful research data on topic: '' @ topic))))"
proof -
  have found: "firecrawl_search_web up (firecrawl_service ctx) (research_prelude topic depth) topic depth
                 = (search_trace ctx topic depth, Inr (Val items))"
    by (simp add: firecrawl_search_web_def search_trace_def assms(1))
  show ?thesis
    unfolding research_topic_def Let_def research_prelude_def [symmetric]
    by (simp add: found assms(2) research_gathered_def)
qed

text \<open>The trace and the result of a run whose search returned a non-empty list.\<close>

lemma research_topic_trace:
  assumes "search_reply up (research_prelude topic depth) (firecrawl_service ctx) topic depth
             = Reply 200 body (Inr (Val items))"
    and "items \<noteq> []"
  shows "fst (research_topic up ctx topic depth) =
     fst (research_gathered up ctx topic depth items)
       @ (case snd (research_gathered up ctx topic depth items) of
            Inl e \<Rightarrow> []
          | Inr rd \<Rightarrow>
              if rd = [] then []
              else [GenerateCall (groq_service ctx) (synthesis_prompt topic (join ''\<newline>'' rd))])"
  by (simp add: research_topic_found [OF assms] except_Exception_def groq_generate_text_def
      split: prod.splits sum.splits reply.splits)

lemma research_topic_result:
  assumes "search_reply up (research_prelude topic depth) (firecrawl_service ctx) topic depth
             = Reply 200 body (Inr (Val items))"
    and "items \<noteq> []"
  shows "snd (research_topic up ctx topic depth) =
     (case snd (research_gathered up ctx topic depth items) of
        Inl e \<Rightarrow> if is_Exception e then Inr (Val (''Error researching topic: '' @ str_exn e)) else Inl e
      | Inr rd \<Rightarrow>
          if rd = []
          then Inr (Val (''Could not gather meaningful research data on topic: '' @ topic))
          else (case snd (groq_generate_text up (groq_service ctx)
                            (fst (research_gathered up ctx topic depth items))
                            (synthesis_prompt topic (join ''\<newline>'' rd))) of
                  Inl e \<Rightarrow>
                    if is_Exception e then Inr (Val (''Error researching topic: '' @ str_exn e)) else Inl e
                | Inr final_analysis \<Rightarrow>
                    Inr (Val (''# Research on: '' @ topic @ ''\<newline>\<newline>'' @ py_str final_analysis
                               @ ''\<newline>\<newline>## Sources\<newline>\<newline>'' @ join ''\<newline>'' rd))))"
  by (simp add: research_topic_found [OF assms] except_Exception_def
      split: prod.splits sum.splits)

subsection \<open>Empty search\<close>

text \<open>
  Claim C7. For every topic and depth, when the search request of \<open>research_topic\<close> is
  answered with status 200 and an empty result list, the handler returns the string
  "No search results found for topic: <topic>", its trace ends with the search request,
  and no generation request is in the trace.
\<close>

theorem research_topic_no_results:
  assumes "search_reply up (research_prelude topic depth) (firecrawl_service ctx) topic depth
             = Reply 200 body (Inr (Val []))"
  shows "snd (research_topic up ctx topic depth)
           = Inr (Val (''No search results found for topic: '' @ topic))
         \<and> fst (research_topic up ctx topic depth)
             = research_prelude topic depth @ [SearchCall (firecrawl_service ctx) topic depth]
         \<and> (\<forall>g p. GenerateCall g p \<notin> set (fst (research_topic up ctx topic depth)))"
  using assms
  by (simp add: research_topic_def research_prelude_def firecrawl_search_web_def except_Exception_def)

theorem research_topic_no_results_witness:
  "research_topic (demo_up []) demo_ctx ''rust'' 0
     = ([Info ''Researching topic: rust with depth 0'',
         Info ''Searching web...'',
         Progress 0 1,
         SearchCall (firecrawl_service demo_ctx) ''rust'' 0],
        Inr (Val ''No search results found for topic: rust''))
   \<and> (\<forall>g p. GenerateCall g p \<notin> set (fst (research_topic (demo_up []) demo_ctx ''rust'' 0)))"
proof -
  have h: "search_reply (demo_up []) (research_prelude ''rust'' 0) (firecrawl_service demo_ctx) ''rust'' 0
             = Reply 200 ''{..}'' (Inr (Val []))"
    by (simp add: demo_up_def)
  note W = research_topic_no_results [OF h]
  have p: "research_prelude ''rust'' 0 @ [SearchCall (firecrawl_service demo_ctx) ''rust'' 0]
             = [Info ''Researching topic: rust with depth 0'', Info ''Searching web...'', Progress 0 1,
                SearchCall (firecrawl_service demo_ctx) ''rust'' 0]"
    by code_simp
  have s: "''No search results found for topic: '' @ ''rust'' = ''No search results found for topic: rust''"
    by simp
  have "research_topic (demo_up []) demo_ctx ''rust'' 0
     = ([Info ''Researching topic: rust with depth 0'', Info ''Searching web...'', Progress 0 1,
         SearchCall (firecrawl_service demo_ctx) ''rust'' 0],
        Inr (Val ''No search results found for topic: rust''))"
    using W [THEN conjunct1] W [THEN conjunct2, THEN conjunct1] unfolding p s
    by (metis prod.collapse)
  with W show ?thesis by blast
qed

subsection \<open>Analysis without summary\<close>

text \<open>
  Claim C6. For every URL and whatever the upstream services answer,
  \<open>analyze_website\<close> called with \<open>include_summary = False\<close> sends no generation request.
\<close>

theorem analyze_website_no_generation:
  "\<forall>g p. GenerateCall g p \<notin> set (fst (analyze_website up ctx url_arg False))"
  by (simp add: analyze_website_def firecrawl_scrape_website_def except_Exception_def Let_def
           split: reply.splits sum.splits nullable.splits)

subsection \<open>Startup without keys\<close>

text \<open>
  Claim C9. For every environment in which one of the two mandatory keys is unset or
  empty, \<open>app_lifespan\<close> raises a \<open>ValueError\<close> before printing or yielding anything, so
  no context exists for a handler to run in; with both keys non-empty it yields a context
  that holds them.
\<close>

theorem app_lifespan_requires_keys:
  "(if key_missing environ ''GROQ_API_KEY'' \<or> key_missing environ ''FIRECRAWL_API_KEY''
    then \<exists>m. app_lifespan environ = ([], Inl (ValueError m))
    else \<exists>ctx. snd (app_lifespan environ) = Inr ctx
           \<and> environ ''GROQ_API_KEY'' = Some (groq_api_key (config ctx))
           \<and> environ ''FIRECRAWL_API_KEY'' = Some (firecrawl_api_key (config ctx)))"
  by (auto simp: app_lifespan_def key_missing_def AppConfig_init_def Let_def)

theorem app_lifespan_requires_keys_witness:
  "(\<exists>m. app_lifespan Map.empty = ([], Inl (ValueError m)))
   \<and> (\<exists>m. app_lifespan [''GROQ_API_KEY'' \<mapsto> ''gk''] = ([], Inl (ValueError m)))
   \<and> (\<exists>m. app_lifespan [''FIRECRAWL_API_KEY'' \<mapsto> ''fk''] = ([], Inl (ValueError m)))
   \<and> (\<exists>m. app_lifespan [''GROQ_API_KEY'' \<mapsto> '''', ''FIRECRAWL_API_KEY'' \<mapsto> ''fk''] = ([], Inl (ValueError m)))
   \<and> (\<exists>m. app_lifespan [''GROQ_API_KEY'' \<mapsto> ''gk'', ''FIRECRAWL_API_KEY'' \<mapsto> ''''] = ([], Inl (ValueError m)))
   \<and> (\<exists>ctx. snd (app_lifespan [''GROQ_API_KEY'' \<mapsto> ''gk'', ''FIRECRAWL_API_KEY'' \<mapsto> ''fk'']) = Inr ctx)"
  using app_lifespan_requires_keys [of Map.empty]
        app_lifespan_requires_keys [of "[''GROQ_API_KEY'' \<mapsto> ''gk'']"]
        app_lifespan_requires_keys [of "[''FIRECRAWL_API_KEY'' \<mapsto> ''fk'']"]
        app_lifespan_requires_keys [of "[''GROQ_API_KEY'' \<mapsto> '''', ''FIRECRAWL_API_KEY'' \<mapsto> ''fk'']"]
        app_lifespan_requires_keys [of "[''GROQ_API_KEY'' \<mapsto> ''gk'', ''FIRECRAWL_API_KEY'' \<mapsto> '''']"]
        app_lifespan_requires_keys [of "[''GROQ_API_KEY'' \<mapsto> ''gk'', ''FIRECRAWL_API_KEY'' \<mapsto> ''fk'']"]
  by (auto simp: key_missing_def)

subsection \<open>Search limit that is not an integer\<close>

text \<open>The context built at startup carries the default limit 5.\<close>

lemma app_lifespan_default_limit:
  "snd (app_lifespan environ) = Inr ctx \<Longrightarrow> default_search_limit (config ctx) = 5"
  by (auto simp: app_lifespan_def AppConfig_init_def Let_def split: if_splits)

text \<open>A string of 4301 digits is over the limit of \<open>int\<close>.\<close>

lemma py_int_too_many_digits: "py_int (replicate 4301 (CHR ''1'')) = None"
proof -
  have d: "is_digit (CHR ''1'')" and w: "\<not> is_space (CHR ''1'')"
    by (simp_all add: is_digit_def is_space_def)
  have "(4301::nat) = Suc 4300" by simp
  then have n: "replicate 4301 (CHR ''1'') = CHR ''1'' # replicate 4300 (CHR ''1'')"
    by (simp only: replicate_Suc)
  have "strip (replicate 4301 (CHR ''1'')) = replicate 4301 (CHR ''1'')"
    using w by (simp add: strip_def dropWhile_replicate)
  then have s: "strip (replicate 4301 (CHR ''1'')) = CHR ''1'' # replicate 4300 (CHR ''1'')"
    by (simp only: n)
  have "parse_unsigned (CHR ''1'' # replicate 4300 (CHR ''1'')) = None"
    using d by (simp add: parse_unsigned_def max_str_digits_def)
  then show ?thesis
    by (simp add: py_int_def s)
qed

text \<open>
  Claim C8. For every query and every limit string on which \<open>int\<close> raises \<open>ValueError\<close> (the
  empty string is not even passed to \<open>int\<close>), whatever the builtin \<open>int\<close> does on other
  strings, the handler of \<open>search://{query}/{limit}\<close> sends exactly one request, the search
  for the query with the configured default limit, and no exception of class \<open>Exception\<close>
  leaves it.
\<close>

theorem search_web_default_limit:
  assumes "limit = [] \<or> int_builtin limit = None"
  shows "effects (fst (search_web up int_builtin ctx query limit))
           = [SearchCall (firecrawl_service ctx) query (default_search_limit (config ctx))]
         \<and> fst (search_web up int_builtin ctx query limit)
           = [Info (''Searching web for: '' @ query @ '' with limit ''
                      @ str_int (default_search_limit (config ctx))),
              SearchCall (firecrawl_service ctx) query (default_search_limit (config ctx))]
         \<and> (\<forall>e. snd (search_web up int_builtin ctx query limit) = Inl e \<longrightarrow> \<not> is_Exception e)"
proof -
  have lim: "parse_limit int_builtin (config ctx) limit = default_search_limit (config ctx)"
    using assms by (auto simp: parse_limit_def)
  have tr: "fst (search_web up int_builtin ctx query limit)
           = [Info (''Searching web for: '' @ query @ '' with limit ''
                      @ str_int (default_search_limit (config ctx))),
              SearchCall (firecrawl_service ctx) query (default_search_limit (config ctx))]"
    by (simp add: search_web_def lim firecrawl_search_web_def except_Exception_def Let_def
          split: reply.splits sum.splits nullable.splits)
  have eff: "effects (fst (search_web up int_builtin ctx query limit))
           = [SearchCall (firecrawl_service ctx) query (default_search_limit (config ctx))]"
    unfolding tr by (simp add: effects_def)
  have exc: "\<forall>e. snd (search_web up int_builtin ctx query limit) = Inl e \<longrightarrow> \<not> is_Exception e"
    by (simp add: search_web_def Let_def except_Exception_def split: prod.splits sum.splits)
  from eff tr exc show ?thesis by blast
qed

theorem search_web_default_limit_witness:
  "py_int ''abc'' = None \<and> py_int ''1.5'' = None \<and> py_int ''5 apples'' = None
   \<and> search_web (demo_up [hit ''T'' ''a'']) py_int demo_ctx ''rust'' ''abc''
       = ([Info ''Searching web for: rust with limit 5'',
           SearchCall (firecrawl_service demo_ctx) ''rust'' 5],
          Inr (Val ''Result 1:\<newline>Title: T\<newline>URL: a\<newline>Snippet: No snippet\<newline>''))
   \<and> fst (search_web (demo_up []) py_int demo_ctx ''rust'' '''')
       = [Info ''Searching web for: rust with limit 5'',
          SearchCall (firecrawl_service demo_ctx) ''rust'' 5]
   \<and> fst (search_web (demo_up []) py_int demo_ctx ''rust'' ''1.5'')
       = [Info ''Searching web for: rust with limit 5'',
          SearchCall (firecrawl_service demo_ctx) ''rust'' 5]
   \<and> fst (search_web outage py_int demo_ctx ''rust'' ''5 apples'')
       = [Info ''Searching web for: rust with limit 5'',
          SearchCall (firecrawl_service demo_ctx) ''rust'' 5]
   \<and> fst (search_web (demo_up []) py_int demo_ctx ''rust'' (replicate 4301 (CHR ''1'')))
       = [Info ''Searching web for: rust with limit 5'',
          SearchCall (firecrawl_service demo_ctx) ''rust'' 5]
   \<and> fst (search_web (demo_up []) py_int demo_ctx ''rust'' ''7'')
       = [Info ''Searching web for: rust with limit 7'',
          SearchCall (firecrawl_service demo_ctx) ''rust'' 7]
   \<and> fst (search_web (demo_up []) py_int demo_ctx ''rust'' [CHR 0xA0, CHR ''7''])
       = [Info ''Searching web for: rust with limit 7'',
          SearchCall (firecrawl_service demo_ctx) ''rust'' 7]"
proof -
  have e: "replicate 4301 (CHR ''1'') = [] \<or> py_int (replicate 4301 (CHR ''1'')) = None"
    using py_int_too_many_digits by simp
  note E = search_web_default_limit
             [where limit = "replicate 4301 (CHR ''1'')" and int_builtin = py_int and up = "demo_up []"
                and ctx = demo_ctx and query = "''rust''", OF e, THEN conjunct2, THEN conjunct1]
  have nbsp: "fst (search_web (demo_up []) py_int demo_ctx ''rust'' [CHR 0xA0, CHR ''7''])
       = [Info ''Searching web for: rust with limit 7'',
          SearchCall (firecrawl_service demo_ctx) ''rust'' 7]"
    by code_simp
  have a: "''abc'' = [] \<or> py_int ''abc'' = None"
    by (simp add: py_int_def strip_def is_space_def is_digit_def parse_unsigned_def max_str_digits_def)
  have b: "'''' = [] \<or> py_int '''' = None"
    by simp
  have c: "''1.5'' = [] \<or> py_int ''1.5'' = None"
    by (simp add: py_int_def strip_def is_space_def is_digit_def digit_val_def parse_unsigned_def
          max_str_digits_def)
  have d: "''5 apples'' = [] \<or> py_int ''5 apples'' = None"
    by (simp add: py_int_def strip_def is_space_def is_digit_def digit_val_def parse_unsigned_def
          max_str_digits_def)
  have l: "default_search_limit (config demo_ctx) = 5"
    by (simp add: demo_ctx_def AppConfig_init_def)
  have s5: "''Searching web for: '' @ ''rust'' @ '' with limit '' @ str_int 5
              = ''Searching web for: rust with limit 5''"
    by code_simp
  note A = search_web_default_limit
             [where limit = "''abc''" and int_builtin = py_int and up = "demo_up [hit ''T'' ''a'']" and ctx = demo_ctx
                and query = "''rust''", OF a, THEN conjunct2, THEN conjunct1, unfolded l s5]
  note B = search_web_default_limit
             [where limit = "''''" and int_builtin = py_int and up = "demo_up []" and ctx = demo_ctx
                and query = "''rust''", OF b, THEN conjunct2, THEN conjunct1, unfolded l s5]
  note C = search_web_default_limit
             [where limit = "''1.5''" and int_builtin = py_int and up = "demo_up []" and ctx = demo_ctx
                and query = "''rust''", OF c, THEN conjunct2, THEN conjunct1, unfolded l s5]
  note D = search_web_default_limit
             [where limit = "''5 apples''" and int_builtin = py_int and up = outage and ctx = demo_ctx
                and query = "''rust''", OF d, THEN conjunct2, THEN conjunct1, unfolded l s5]
  have r: "snd (search_web (demo_up [hit ''T'' ''a'']) py_int demo_ctx ''rust'' ''abc'')
             = Inr (Val ''Result 1:\<newline>Title: T\<newline>URL: a\<newline>Snippet: No snippet\<newline>'')"
    by code_simp
  have A': "search_web (demo_up [hit ''T'' ''a'']) py_int demo_ctx ''rust'' ''abc''
       = ([Info ''Searching web for: rust with limit 5'',
           SearchCall (firecrawl_service demo_ctx) ''rust'' 5],
          Inr (Val ''Result 1:\<newline>Title: T\<newline>URL: a\<newline>Snippet: No snippet\<newline>''))"
    using A r by (metis prod.collapse)
  have seven: "fst (search_web (demo_up []) py_int demo_ctx ''rust'' ''7'')
       = [Info ''Searching web for: rust with limit 7'',
          SearchCall (firecrawl_service demo_ctx) ''rust'' 7]"
    by code_simp
  from a c d A' B C D E [unfolded l s5] seven nbsp show ?thesis by simp
qed

subsection \<open>When the synthesis runs\<close>

lemma first_abort_None: "first_abort os = None \<longleftrightarrow> (\<forall>oc \<in> set os. outcome_abort oc = None)"
  by (induction os) (auto split: option.splits)

lemma item_outcome_reached: "item_outcome up ctx depth i result tr \<noteq> NotReached"
  by (simp add: item_outcome_def scrape_outcome_def summarize_outcome_def
      split: nullable.splits sum.splits)

lemma loop_outcomes_reached:
  "first_abort (loop_outcomes up ctx depth xs tr) = None \<Longrightarrow>
     NotReached \<notin> set (loop_outcomes up ctx depth xs tr)"
proof (induction xs arbitrary: tr)
  case Nil
  then show ?case by simp
next
  case (Cons x xs)
  obtain i result where x: "x = (i, result)" by (cases x)
  from Cons.prems have a: "outcome_abort (item_outcome up ctx depth i result tr) = None"
    by (simp add: x split: option.splits)
  with Cons.prems
  have "first_abort (loop_outcomes up ctx depth xs (fst (analyze_result up ctx depth i result tr))) = None"
    by (simp add: x)
  from Cons.IH [OF this] a item_outcome_reached [of up ctx depth i result tr]
  show ?case by (auto simp: x)
qed

lemma research_outcomes_reached:
  "first_abort (research_outcomes up ctx topic depth items) = None \<Longrightarrow>
     NotReached \<notin> set (research_outcomes up ctx topic depth items)"
  unfolding research_outcomes_def by (rule loop_outcomes_reached)

lemma outcome_lines_empty:
  "outcome_lines i oc = [] \<longleftrightarrow>
     (oc = Skipped \<or> (\<exists>u. oc = EmptyContent u) \<or> oc = NotReached \<or> outcome_abort oc \<noteq> None)"
  by (cases oc) simp_all

lemma set_enumerate_snd: "snd ` set (enumerate n xs) = set xs"
  by (metis enumerate_eq_zip length_upt map_snd_zip set_map add_diff_cancel_left')

lemma gathered_lines_empty:
  assumes "first_abort (research_outcomes up ctx topic depth items) = None"
  shows "research_lines up ctx topic depth items = [] \<longleftrightarrow>
     (\<forall>oc \<in> set (research_outcomes up ctx topic depth items). oc = Skipped \<or> (\<exists>u. oc = EmptyContent u))"
proof -
  let ?os = "research_outcomes up ctx topic depth items"
  have quiet: "outcome_lines j oc = [] \<longleftrightarrow> (oc = Skipped \<or> (\<exists>u. oc = EmptyContent u))"
    if "oc \<in> set ?os" for j oc
    using that assms research_outcomes_reached [OF assms]
    by (auto simp: outcome_lines_empty first_abort_None)
  have "research_lines up ctx topic depth items = [] \<longleftrightarrow>
          (\<forall>q \<in> set (enumerate 0 ?os). outcome_lines (fst q) (snd q) = [])"
    by (auto simp: research_lines_outcomes [OF assms])
  also have "\<dots> \<longleftrightarrow> (\<forall>q \<in> set (enumerate 0 ?os). snd q = Skipped \<or> (\<exists>u. snd q = EmptyContent u))"
    using quiet by (metis image_eqI set_enumerate_snd)
  also have "\<dots> \<longleftrightarrow> (\<forall>oc \<in> snd ` set (enumerate 0 ?os). oc = Skipped \<or> (\<exists>u. oc = EmptyContent u))"
    by blast
  finally show ?thesis by (simp only: set_enumerate_snd)
qed

lemma quiet_outcome_events:
  "oc = Skipped \<or> (\<exists>u. oc = EmptyContent u) \<Longrightarrow> GenerateCall g p \<notin> set (outcome_events ctx depth i oc)"
  by (auto simp: item_prelude_def)

lemma search_trace_no_generation: "GenerateCall g p \<notin> set (search_trace ctx topic depth)"
  by (simp add: search_trace_def research_prelude_def)

lemma quiet_gathered_trace:
  assumes "\<forall>oc \<in> set (research_outcomes up ctx topic depth items). oc = Skipped \<or> (\<exists>u. oc = EmptyContent u)"
  shows "GenerateCall g p \<notin> set (fst (research_gathered up ctx topic depth items))"
proof
  assume "GenerateCall g p \<in> set (fst (research_gathered up ctx topic depth items))"
  then obtain q where q: "q \<in> set (enumerate 0 (research_outcomes up ctx topic depth items))"
      and ev: "GenerateCall g p \<in> set (outcome_events ctx depth (fst q) (snd q))"
    by (auto simp: gathered_trace search_trace_no_generation)
  from q have "snd q \<in> set (research_outcomes up ctx topic depth items)"
    by (metis image_eqI set_enumerate_snd)
  with assms have "snd q = Skipped \<or> (\<exists>u. snd q = EmptyContent u)" by blast
  from quiet_outcome_events [OF this] ev show False by blast
qed

lemma quiet_no_abort:
  assumes "\<forall>oc \<in> set os. oc = Skipped \<or> (\<exists>u. oc = EmptyContent u)"
  shows "first_abort os = None"
  using assms by (auto simp: first_abort_None)

lemma could_not_differs:
  "(case r of
      Inl e \<Rightarrow> if is_Exception e then Inr (Val (''Error researching topic: '' @ str_exn e)) else Inl e
    | Inr a \<Rightarrow> Inr (Val (''# Research on: '' @ topic @ rest a)))
     \<noteq> Inr (Val (''Could not gather meaningful research data on topic: '' @ topic))"
  by (cases r) simp_all

lemma abort_differs:
  "(if is_Exception e then Inr (Val (''Error researching topic: '' @ str_exn e)) else Inl e)
     \<noteq> Inr (Val (''Could not gather meaningful research data on topic: '' @ topic))"
  by simp

text \<open>
  Claim C1, as the code has it. When the search returns a non-empty list, the handler
  returns "Could not gather meaningful research data on topic: <topic>" and sends no
  generation request exactly when every item was skipped for lack of a URL or was scraped
  successfully with no text. In every other case the result is another string; and unless
  an exception left the loop, some item gave a source block or failed in its scrape or its
  summary and left an error line in \<open>research_data\<close>, and the trace ends with the synthesis
  request over the gathered lines. When an exception left the loop (a search result that
  is \<open>None\<close>, or an exception outside class \<open>Exception\<close>) there is no synthesis request, and the
  handler returns the error string or lets the exception pass.
\<close>

theorem research_topic_gathering:
  assumes "search_reply up (research_prelude topic depth) (firecrawl_service ctx) topic depth
             = Reply 200 body (Inr (Val items))"
    and "items \<noteq> []"
  shows "if (\<forall>oc \<in> set (research_outcomes up ctx topic depth items).
               oc = Skipped \<or> (\<exists>u. oc = EmptyContent u))
         then snd (research_topic up ctx topic depth)
                = Inr (Val (''Could not gather meaningful research data on topic: '' @ topic))
              \<and> (\<forall>g p. GenerateCall g p \<notin> set (fst (research_topic up ctx topic depth)))
         else snd (research_topic up ctx topic depth)
                \<noteq> Inr (Val (''Could not gather meaningful research data on topic: '' @ topic))
              \<and> (case first_abort (research_outcomes up ctx topic depth items) of
                    None \<Rightarrow>
                      fst (research_topic up ctx topic depth)
                        = fst (research_gathered up ctx topic depth items)
                            @ [GenerateCall (groq_service ctx)
                                 (synthesis_prompt topic
                                    (join ''\<newline>'' (research_lines up ctx topic depth items)))]
                  | Some e \<Rightarrow>
                      fst (research_topic up ctx topic depth)
                        = fst (research_gathered up ctx topic depth items)
                      \<and> snd (research_topic up ctx topic depth)
                        = (if is_Exception e
                           then Inr (Val (''Error researching topic: '' @ str_exn e))
                           else Inl e))"
proof (cases "\<forall>oc \<in> set (research_outcomes up ctx topic depth items).
                 oc = Skipped \<or> (\<exists>u. oc = EmptyContent u)")
  case True
  have na: "first_abort (research_outcomes up ctx topic depth items) = None"
    using True by (rule quiet_no_abort)
  have "research_lines up ctx topic depth items = []"
    using True by (simp add: gathered_lines_empty [OF na])
  then have empty: "snd (research_gathered up ctx topic depth items) = Inr []"
    using na by (simp add: research_lines_def gathered_result)
  have "snd (research_topic up ctx topic depth)
          = Inr (Val (''Could not gather meaningful research data on topic: '' @ topic))"
    by (simp add: research_topic_result [OF assms] empty)
  moreover have "fst (research_topic up ctx topic depth) = fst (research_gathered up ctx topic depth items)"
    by (simp add: research_topic_trace [OF assms] empty)
  ultimately show ?thesis
    using True quiet_gathered_trace [OF True] by simp
next
  case False
  show ?thesis
  proof (cases "first_abort (research_outcomes up ctx topic depth items)")
    case None
    have "research_lines up ctx topic depth items \<noteq> []"
      using False by (simp add: gathered_lines_empty [OF None])
    moreover have g: "snd (research_gathered up ctx topic depth items)
                        = Inr (research_lines up ctx topic depth items)"
      using None by (simp add: research_lines_def gathered_result)
    ultimately have
      "snd (research_topic up ctx topic depth)
          \<noteq> Inr (Val (''Could not gather meaningful research data on topic: '' @ topic))"
      and "fst (research_topic up ctx topic depth)
             = fst (research_gathered up ctx topic depth items)
                 @ [GenerateCall (groq_service ctx)
                      (synthesis_prompt topic (join ''\<newline>'' (research_lines up ctx topic depth items)))]"
      using could_not_differs
        [where r = "snd (groq_generate_text up (groq_service ctx)
                    (fst (research_gathered up ctx topic depth items))
                    (synthesis_prompt topic (join ''\<newline>'' (research_lines up ctx topic depth items))))"
           and topic = topic
           and rest = "\<lambda>a. ''\<newline>\<newline>'' @ py_str a @ ''\<newline>\<newline>## Sources\<newline>\<newline>''
                   @ join ''\<newline>'' (research_lines up ctx topic depth items)"]
      by (simp_all add: research_topic_result [OF assms] research_topic_trace [OF assms] g)
    then show ?thesis using False None by simp
  next
    case (Some e)
    have g: "snd (research_gathered up ctx topic depth items) = Inl e"
      using Some by (simp add: gathered_result)
    have "snd (research_topic up ctx topic depth)
            = (if is_Exception e then Inr (Val (''Error researching topic: '' @ str_exn e)) else Inl e)"
      and "fst (research_topic up ctx topic depth) = fst (research_gathered up ctx topic depth items)"
      by (simp_all add: research_topic_result [OF assms] research_topic_trace [OF assms] g)
    then show ?thesis using False Some abort_differs [of e topic] by simp
  qed
qed

theorem research_topic_gathering_witness:
  "(snd (research_topic (demo_up [hit ''T'' ''blank'']) demo_ctx ''rust'' 1)
      = Inr (Val ''Could not gather meaningful research data on topic: rust'')
    \<and> (\<forall>g p. GenerateCall g p
               \<notin> set (fst (research_topic (demo_up [hit ''T'' ''blank'']) demo_ctx ''rust'' 1))))
   \<and> (snd (research_topic (demo_up [hit ''T'' ''a'']) demo_ctx ''rust'' 1)
         \<noteq> Inr (Val ''Could not gather meaningful research data on topic: rust'')
       \<and> fst (research_topic (demo_up [hit ''T'' ''a'']) demo_ctx ''rust'' 1)
           = [Info ''Researching topic: rust with depth 1'',
              Info ''Searching web...'',
              Progress 0 2,
              SearchCall (firecrawl_service demo_ctx) ''rust'' 1,
              Info ''Analyzing result 1: a'',
              Progress 1 2,
              ScrapeCall (firecrawl_service demo_ctx) ''a'',
              GenerateCall (groq_service demo_ctx)
                ''Please summarize the following content in a concise way, maximum 300 words:\<newline>\<newline>text of a'',
              GenerateCall (groq_service demo_ctx)
                ''Based on the following research on 'rust', provide a comprehensive analysis:\<newline>\<newline>Source 1: T\<newline>URL: a\<newline>Summary: OK\<newline>''])
   \<and> (research_topic (demo_up [hit ''T'' ''cancel'']) demo_ctx ''rust'' 1
         = ([Info ''Researching topic: rust with depth 1'',
             Info ''Searching web...'',
             Progress 0 2,
             SearchCall (firecrawl_service demo_ctx) ''rust'' 1,
             Info ''Analyzing result 1: cancel'',
             Progress 1 2,
             ScrapeCall (firecrawl_service demo_ctx) ''cancel''],
            Inl (BaseException ''cancelled'')))"
proof -
  let ?c = "''Could not gather meaningful research data on topic: rust''"
  have c: "''Could not gather meaningful research data on topic: '' @ ''rust'' = ?c"
    by simp
  have h1: "search_reply (demo_up [hit ''T'' ''blank'']) (research_prelude ''rust'' 1)
              (firecrawl_service demo_ctx) ''rust'' 1 = Reply 200 ''{..}'' (Inr (Val [hit ''T'' ''blank'']))"
    by (simp add: demo_up_def)
  have h2: "search_reply (demo_up [hit ''T'' ''a'']) (research_prelude ''rust'' 1)
              (firecrawl_service demo_ctx) ''rust'' 1 = Reply 200 ''{..}'' (Inr (Val [hit ''T'' ''a'']))"
    by (simp add: demo_up_def)
  have h3: "search_reply (demo_up [hit ''T'' ''cancel'']) (research_prelude ''rust'' 1)
              (firecrawl_service demo_ctx) ''rust'' 1 = Reply 200 ''{..}'' (Inr (Val [hit ''T'' ''cancel'']))"
    by (simp add: demo_up_def)
  have n1: "[hit ''T'' ''blank''] \<noteq> []" and n2: "[hit ''T'' ''a''] \<noteq> []"
    and n3: "[hit ''T'' ''cancel''] \<noteq> []"
    by simp_all
  have o1: "research_outcomes (demo_up [hit ''T'' ''blank'']) demo_ctx ''rust'' 1 [hit ''T'' ''blank'']
              = [EmptyContent ''blank'']"
    by code_simp
  have o2: "research_outcomes (demo_up [hit ''T'' ''a'']) demo_ctx ''rust'' 1 [hit ''T'' ''a'']
              = [Gathered ''T'' ''a'' ''text of a'' (Val ''OK'')]"
    by code_simp
  have o3: "research_outcomes (demo_up [hit ''T'' ''cancel'']) demo_ctx ''rust'' 1 [hit ''T'' ''cancel'']
              = [ScrapeEscaped ''cancel'' (BaseException ''cancelled'')]"
    by code_simp
  have g2: "fst (research_gathered (demo_up [hit ''T'' ''a'']) demo_ctx ''rust'' 1 [hit ''T'' ''a''])
              = [Info ''Researching topic: rust with depth 1'',
                 Info ''Searching web...'',
                 Progress 0 2,
                 SearchCall (firecrawl_service demo_ctx) ''rust'' 1,
                 Info ''Analyzing result 1: a'',
                 Progress 1 2,
                 ScrapeCall (firecrawl_service demo_ctx) ''a'',
                 GenerateCall (groq_service demo_ctx)
                   ''Please summarize the following content in a concise way, maximum 300 words:\<newline>\<newline>text of a'']"
    by code_simp
  have p2: "synthesis_prompt ''rust''
              (join ''\<newline>''
                 (research_lines (demo_up [hit ''T'' ''a'']) demo_ctx ''rust'' 1 [hit ''T'' ''a'']))
              = ''Based on the following research on 'rust', provide a comprehensive analysis:\<newline>\<newline>Source 1: T\<newline>URL: a\<newline>Summary: OK\<newline>''"
    by code_simp
  have g3: "fst (research_gathered (demo_up [hit ''T'' ''cancel'']) demo_ctx ''rust'' 1 [hit ''T'' ''cancel''])
              = [Info ''Researching topic: rust with depth 1'',
                 Info ''Searching web...'',
                 Progress 0 2,
                 SearchCall (firecrawl_service demo_ctx) ''rust'' 1,
                 Info ''Analyzing result 1: cancel'',
                 Progress 1 2,
                 ScrapeCall (firecrawl_service demo_ctx) ''cancel'']"
    by code_simp
  have w1: "snd (research_topic (demo_up [hit ''T'' ''blank'']) demo_ctx ''rust'' 1) = Inr (Val ?c)
    \<and> (\<forall>g p. GenerateCall g p
               \<notin> set (fst (research_topic (demo_up [hit ''T'' ''blank'']) demo_ctx ''rust'' 1)))"
    using research_topic_gathering [OF h1 n1] by (simp add: o1)
  have w2: "snd (research_topic (demo_up [hit ''T'' ''a'']) demo_ctx ''rust'' 1) \<noteq> Inr (Val ?c)
       \<and> fst (research_topic (demo_up [hit ''T'' ''a'']) demo_ctx ''rust'' 1)
           = fst (research_gathered (demo_up [hit ''T'' ''a'']) demo_ctx ''rust'' 1 [hit ''T'' ''a''])
               @ [GenerateCall (groq_service demo_ctx)
                    (synthesis_prompt ''rust''
                       (join ''\<newline>''
                          (research_lines (demo_up [hit ''T'' ''a'']) demo_ctx ''rust'' 1 [hit ''T'' ''a''])))]"
    using research_topic_gathering [OF h2 n2] by (simp add: o2)
  have w3: "fst (research_topic (demo_up [hit ''T'' ''cancel'']) demo_ctx ''rust'' 1)
           = fst (research_gathered (demo_up [hit ''T'' ''cancel'']) demo_ctx ''rust'' 1 [hit ''T'' ''cancel''])
         \<and> snd (research_topic (demo_up [hit ''T'' ''cancel'']) demo_ctx ''rust'' 1)
           = Inl (BaseException ''cancelled'')"
    using research_topic_gathering [OF h3 n3] by (simp add: o3)
  from w3 have w3': "research_topic (demo_up [hit ''T'' ''cancel'']) demo_ctx ''rust'' 1
         = ([Info ''Researching topic: rust with depth 1'',
             Info ''Searching web...'',
             Progress 0 2,
             SearchCall (firecrawl_service demo_ctx) ''rust'' 1,
             Info ''Analyzing result 1: cancel'',
             Progress 1 2,
             ScrapeCall (firecrawl_service demo_ctx) ''cancel''],
            Inl (BaseException ''cancelled''))"
    unfolding g3 by (metis prod.collapse)
  from w1 w2 [unfolded g2 p2] w3' show ?thesis by simp
qed

text \<open>
  Claim C1 as stated fails: the search returns one item, its scrape is answered with
  status 500, so no source block is gathered; still the result is not the
  "could not gather" string and the last request is the synthesis.
\<close>

theorem research_topic_failed_source_counterexample:
  "search_reply (demo_up [hit ''T'' ''bad'']) (research_prelude ''rust'' 1)
     (firecrawl_service demo_ctx) ''rust'' 1 = Reply 200 ''{..}'' (Inr (Val [hit ''T'' ''bad'']))
   \<and> research_outcomes (demo_up [hit ''T'' ''bad'']) demo_ctx ''rust'' 1 [hit ''T'' ''bad'']
       = [ScrapeFailed ''bad'' (Exception ''Firecrawl API error: 500 - down'')]
   \<and> snd (research_topic (demo_up [hit ''T'' ''bad'']) demo_ctx ''rust'' 1)
       = Inr (Val ''# Research on: rust\<newline>\<newline>OK\<newline>\<newline>## Sources\<newline>\<newline>Error analyzing bad: Firecrawl API error: 500 - down'')
   \<and> snd (research_topic (demo_up [hit ''T'' ''bad'']) demo_ctx ''rust'' 1)
       \<noteq> Inr (Val ''Could not gather meaningful research data on topic: rust'')
   \<and> last (fst (research_topic (demo_up [hit ''T'' ''bad'']) demo_ctx ''rust'' 1))
       = GenerateCall (groq_service demo_ctx)
           ''Based on the following research on 'rust', provide a comprehensive analysis:\<newline>\<newline>Error analyzing bad: Firecrawl API error: 500 - down''"
proof -
  have a: "search_reply (demo_up [hit ''T'' ''bad'']) (research_prelude ''rust'' 1)
     (firecrawl_service demo_ctx) ''rust'' 1 = Reply 200 ''{..}'' (Inr (Val [hit ''T'' ''bad'']))"
    by (simp add: demo_up_def)
  have b: "research_outcomes (demo_up [hit ''T'' ''bad'']) demo_ctx ''rust'' 1 [hit ''T'' ''bad'']
       = [ScrapeFailed ''bad'' (Exception ''Firecrawl API error: 500 - down'')]"
    by code_simp
  have c: "snd (research_topic (demo_up [hit ''T'' ''bad'']) demo_ctx ''rust'' 1)
       = Inr (Val ''# Research on: rust\<newline>\<newline>OK\<newline>\<newline>## Sources\<newline>\<newline>Error analyzing bad: Firecrawl API error: 500 - down'')"
    by code_simp
  have d: "last (fst (research_topic (demo_up [hit ''T'' ''bad'']) demo_ctx ''rust'' 1))
       = GenerateCall (groq_service demo_ctx)
           ''Based on the following research on 'rust', provide a comprehensive analysis:\<newline>\<newline>Error analyzing bad: Firecrawl API error: 500 - down''"
    by code_simp
  from c have e: "snd (research_topic (demo_up [hit ''T'' ''bad'']) demo_ctx ''rust'' 1)
       \<noteq> Inr (Val ''Could not gather meaningful research data on topic: rust'')"
    by simp
  show ?thesis using a b c d e by blast
qed

subsection \<open>Order of the effects\<close>


lemma effects_generate [simp]: "effects [GenerateCall g p] = [GenerateCall g p]"
  by (simp add: effects_def)

lemma effects_Nil [simp]: "effects [] = []"
  by (simp add: effects_def)








lemma loop_outcomes_nth:
  "j < length xs \<Longrightarrow>
     loop_outcomes up ctx depth xs tr ! j = NotReached
     \<or> (\<exists>tr'. loop_outcomes up ctx depth xs tr ! j
                 = item_outcome up ctx depth (fst (xs ! j)) (snd (xs ! j)) tr')"
proof (induction xs arbitrary: tr j)
  case Nil
  then show ?case by simp
next
  case (Cons x xs)
  obtain i result where x: "x = (i, result)" by (cases x)
  show ?case
  proof (cases j)
    case 0
    then show ?thesis by (auto simp: x)
  next
    case (Suc k)
    with Cons.prems have k: "k < length xs" by simp
    show ?thesis
    proof (cases "outcome_abort (item_outcome up ctx depth i result tr)")
      case None
      from Cons.IH [OF k] show ?thesis by (simp add: x Suc None)
    next
      case (Some e)
      then show ?thesis using k by (simp add: x Suc)
    qed
  qed
qed

lemma research_outcomes_nth:
  assumes "j < length items"
  shows "research_outcomes up ctx topic depth items ! j = NotReached
         \<or> (\<exists>tr'. research_outcomes up ctx topic depth items ! j
                     = item_outcome up ctx depth j (items ! j) tr')"
proof -
  have "j < length (enumerate 0 items)" using assms by simp
  from loop_outcomes_nth [OF this]
  show ?thesis using assms by (simp add: research_outcomes_def nth_enumerate_eq)
qed

text \<open>What one search result can be, and what then happened to it.\<close>

lemma item_outcome_cases:
  "(result = Null \<and> item_outcome up ctx depth i result tr = BadItem)
   \<or> (\<exists>item. result = Val item
         \<and> (dict_get (item_url item) Null = Null \<or> dict_get (item_url item) Null = Val [])
         \<and> item_outcome up ctx depth i result tr = Skipped)
   \<or> (\<exists>item u. result = Val item \<and> dict_get (item_url item) Null = Val u \<and> u \<noteq> [] \<and>
          ((\<exists>e. is_Exception e \<and> item_outcome up ctx depth i result tr = ScrapeFailed u e)
           \<or> (\<exists>e. \<not> is_Exception e \<and> item_outcome up ctx depth i result tr = ScrapeEscaped u e)
           \<or> item_outcome up ctx depth i result tr = EmptyContent u
           \<or> (\<exists>c e. is_Exception e \<and> item_outcome up ctx depth i result tr = SummarizeFailed u c e)
           \<or> (\<exists>c e. \<not> is_Exception e \<and> item_outcome up ctx depth i result tr = SummarizeEscaped u c e)
           \<or> (\<exists>c s. item_outcome up ctx depth i result tr
                       = Gathered (py_str (dict_get (item_title item) (Val ''No title''))) u c s)))"
  by (simp add: item_outcome_def scrape_outcome_def summarize_outcome_def
      split: nullable.splits sum.splits)

lemma item_effects_shape:
  "effects (outcome_events ctx depth i (item_outcome up ctx depth i result tr)) = []
   \<and> (result = Null
        \<or> (\<exists>item. result = Val item
              \<and> (dict_get (item_url item) Null = Null \<or> dict_get (item_url item) Null = Val [])))
   \<or> (\<exists>item u rest. result = Val item \<and> dict_get (item_url item) Null = Val u \<and> u \<noteq> []
         \<and> effects (outcome_events ctx depth i (item_outcome up ctx depth i result tr))
             = [Progress (int i + 1) (depth + 1), ScrapeCall (firecrawl_service ctx) u] @ rest
         \<and> (rest = [] \<or> (\<exists>c. rest = [GenerateCall (groq_service ctx) (summarize_prompt c 300)])))"
  using item_outcome_cases [of result up ctx depth i tr]
  by (auto simp: effects_def item_prelude_def)

lemma research_item_effects:
  assumes "j < length items"
  shows "effects (outcome_events ctx depth j (research_outcomes up ctx topic depth items ! j)) = []
         \<and> (items ! j = Null
              \<or> (\<exists>item. items ! j = Val item
                    \<and> (dict_get (item_url item) Null = Null \<or> dict_get (item_url item) Null = Val []))
              \<or> research_outcomes up ctx topic depth items ! j = NotReached)
         \<or> (\<exists>item u rest. items ! j = Val item \<and> dict_get (item_url item) Null = Val u \<and> u \<noteq> []
               \<and> effects (outcome_events ctx depth j (research_outcomes up ctx topic depth items ! j))
                   = [Progress (int j + 1) (depth + 1), ScrapeCall (firecrawl_service ctx) u] @ rest
               \<and> (rest = [] \<or> (\<exists>c. rest = [GenerateCall (groq_service ctx) (summarize_prompt c 300)])))"
proof -
  from research_outcomes_nth [OF assms, of up ctx topic depth]
  consider "research_outcomes up ctx topic depth items ! j = NotReached"
    | tr' where "research_outcomes up ctx topic depth items ! j
                   = item_outcome up ctx depth j (items ! j) tr'"
    by blast
  then show ?thesis
  proof cases
    case 1
    then show ?thesis by simp
  next
    case 2
    from item_effects_shape [of ctx depth j up "items ! j" tr'] show ?thesis
      unfolding 2 by blast
  qed
qed






subsection \<open>Failures become strings\<close>

lemma except_Exception_no_escape:
  "snd (except_Exception what r) = Inl x \<Longrightarrow> \<not> is_Exception x"
  by (cases r) (auto simp: except_Exception_def split: sum.splits if_splits)

lemma except_Exception_Inl:
  "snd r = Inl e \<Longrightarrow>
     snd (except_Exception what r) = (if is_Exception e then Inr (Val (what @ str_exn e)) else Inl e)"
  by (cases r) (simp add: except_Exception_def)

lemma except_Exception_Inr: "snd r = Inr v \<Longrightarrow> snd (except_Exception what r) = Inr v"
  by (cases r) (simp add: except_Exception_def)

lemma except_Exception_string:
  assumes "snd (except_Exception what r) = Inr v" and "\<And>w. snd r = Inr w \<Longrightarrow> \<exists>s. w = Val s"
  shows "\<exists>s. v = Val s"
  using assms by (cases r) (auto simp: except_Exception_def split: sum.splits if_splits)

lemma scrape_non_200:
  "scrape_reply up tr self u = Reply code body d \<Longrightarrow> code \<noteq> 200 \<Longrightarrow>
     snd (firecrawl_scrape_website up self tr u)
       = Inl (Exception (''Firecrawl API error: '' @ str_int code @ '' - '' @ body))"
  by (simp add: firecrawl_scrape_website_def)

lemma search_non_200:
  "search_reply up tr self q l = Reply code body d \<Longrightarrow> code \<noteq> 200 \<Longrightarrow>
     snd (firecrawl_search_web up self tr q l)
       = Inl (Exception (''Firecrawl API error: '' @ str_int code @ '' - '' @ body))"
  by (simp add: firecrawl_search_web_def)

lemma generate_non_200:
  "generate_reply up tr self p = Reply code body d \<Longrightarrow> code \<noteq> 200 \<Longrightarrow>
     snd (groq_generate_text up self tr p)
       = Inl (Exception (''Groq API error: '' @ str_int code @ '' - '' @ body))"
  by (simp add: groq_generate_text_def)

lemma get_website_content_no_escape:
  "snd (get_website_content up ctx u) = Inl x \<Longrightarrow> \<not> is_Exception x"
  unfolding get_website_content_def Let_def by (rule except_Exception_no_escape)

lemma search_web_no_escape:
  "snd (search_web up int_builtin ctx q limit) = Inl x \<Longrightarrow> \<not> is_Exception x"
  unfolding search_web_def Let_def by (rule except_Exception_no_escape)

lemma get_website_metadata_no_escape:
  "snd (get_website_metadata up ctx u) = Inl x \<Longrightarrow> \<not> is_Exception x"
  unfolding get_website_metadata_def Let_def by (rule except_Exception_no_escape)

lemma generate_content_no_escape:
  "snd (generate_content up ctx p) = Inl x \<Longrightarrow> \<not> is_Exception x"
  unfolding generate_content_def Let_def by (rule except_Exception_no_escape)

lemma summarize_text_no_escape:
  "snd (summarize_text up ctx content max_length) = Inl x \<Longrightarrow> \<not> is_Exception x"
  unfolding summarize_text_def Let_def by (rule except_Exception_no_escape)

lemma analyze_website_no_escape:
  "snd (analyze_website up ctx u include_summary) = Inl x \<Longrightarrow> \<not> is_Exception x"
  unfolding analyze_website_def Let_def by (rule except_Exception_no_escape)

lemma research_topic_no_escape:
  "snd (research_topic up ctx topic depth) = Inl x \<Longrightarrow> \<not> is_Exception x"
  unfolding research_topic_def Let_def by (rule except_Exception_no_escape)

lemma search_web_string:
  "snd (search_web up int_builtin ctx q limit) = Inr v \<Longrightarrow> \<exists>s. v = Val s"
  unfolding search_web_def Let_def
  by (erule except_Exception_string) (auto split: prod.splits sum.splits nullable.splits)

lemma get_website_metadata_string:
  "snd (get_website_metadata up ctx u) = Inr v \<Longrightarrow> \<exists>s. v = Val s"
  unfolding get_website_metadata_def Let_def
  by (erule except_Exception_string) (auto split: prod.splits sum.splits nullable.splits)

lemma analyze_website_string:
  "snd (analyze_website up ctx u include_summary) = Inr v \<Longrightarrow> \<exists>s. v = Val s"
  unfolding analyze_website_def Let_def
  by (erule except_Exception_string)
     (auto split: prod.splits sum.splits nullable.splits if_splits)

lemma research_topic_string:
  "snd (research_topic up ctx topic depth) = Inr v \<Longrightarrow> \<exists>s. v = Val s"
  unfolding research_topic_def Let_def
  by (erule except_Exception_string)
     (auto split: prod.splits sum.splits nullable.splits if_splits)

lemma get_website_content_error:
  assumes "snd (firecrawl_scrape_website up (firecrawl_service ctx) [Info (''Scraping website: '' @ u)] u) = Inl e"
  shows "snd (get_website_content up ctx u)
           = (if is_Exception e then Inr (Val (''Error scraping website: '' @ str_exn e)) else Inl e)"
  unfolding get_website_content_def Let_def
  by (rule except_Exception_Inl) (use assms in \<open>auto split: prod.splits\<close>)

lemma get_website_content_value:
  assumes "snd (firecrawl_scrape_website up (firecrawl_service ctx) [Info (''Scraping website: '' @ u)] u)
             = Inr (Val scrape_result)"
  shows "snd (get_website_content up ctx u)
           = Inr (dict_get (sr_text scrape_result) (Val ''No content found''))"
  unfolding get_website_content_def Let_def
  by (rule except_Exception_Inr) (use assms in \<open>auto simp: obj_get_def split: prod.splits\<close>)

lemma search_web_error:
  assumes "snd (firecrawl_search_web up (firecrawl_service ctx)
                  [Info (''Searching web for: '' @ q @ '' with limit ''
                           @ str_int (parse_limit int_builtin (config ctx) limit))]
                  q (parse_limit int_builtin (config ctx) limit)) = Inl e"
  shows "snd (search_web up int_builtin ctx q limit)
           = (if is_Exception e then Inr (Val (''Error searching web: '' @ str_exn e)) else Inl e)"
  unfolding search_web_def Let_def
  by (rule except_Exception_Inl) (use assms in \<open>auto split: prod.splits\<close>)

lemma get_website_metadata_error:
  assumes "snd (firecrawl_scrape_website up (firecrawl_service ctx)
                  [Info (''Getting metadata for website: '' @ u)] u) = Inl e"
  shows "snd (get_website_metadata up ctx u)
           = (if is_Exception e then Inr (Val (''Error getting metadata: '' @ str_exn e)) else Inl e)"
  unfolding get_website_metadata_def Let_def
  by (rule except_Exception_Inl) (use assms in \<open>auto split: prod.splits\<close>)

lemma generate_content_error:
  assumes "snd (groq_generate_text up (groq_service ctx)
                  [Info (''Generating content with prompt: '' @ take 50 p @ ''...'')] p) = Inl e"
  shows "snd (generate_content up ctx p)
           = (if is_Exception e then Inr (Val (''Error generating content: '' @ str_exn e)) else Inl e)"
  unfolding generate_content_def Let_def
  by (rule except_Exception_Inl) (rule assms)

lemma generate_content_value:
  assumes "snd (groq_generate_text up (groq_service ctx)
                  [Info (''Generating content with prompt: '' @ take 50 p @ ''...'')] p) = Inr v"
  shows "snd (generate_content up ctx p) = Inr v"
  unfolding generate_content_def Let_def
  by (rule except_Exception_Inr) (rule assms)

lemma summarize_text_error:
  assumes "snd (groq_summarize_content up (groq_service ctx)
                  [Info (''Summarizing content of length '' @ str_int (int (length content))
                           @ '' with max length '' @ str_int max_length)]
                  content max_length) = Inl e"
  shows "snd (summarize_text up ctx content max_length)
           = (if is_Exception e then Inr (Val (''Error summarizing content: '' @ str_exn e)) else Inl e)"
  unfolding summarize_text_def Let_def
  by (rule except_Exception_Inl) (rule assms)

lemma summarize_text_value:
  assumes "snd (groq_summarize_content up (groq_service ctx)
                  [Info (''Summarizing content of length '' @ str_int (int (length content))
                           @ '' with max length '' @ str_int max_length)]
                  content max_length) = Inr v"
  shows "snd (summarize_text up ctx content max_length) = Inr v"
  unfolding summarize_text_def Let_def
  by (rule except_Exception_Inr) (rule assms)

lemma analyze_website_scrape_error:
  assumes "snd (firecrawl_scrape_website up (firecrawl_service ctx)
                  [Info (''Analyzing website: '' @ u), Progress 0 3] u) = Inl e"
  shows "snd (analyze_website up ctx u include_summary)
           = (if is_Exception e then Inr (Val (''Error analyzing website: '' @ str_exn e)) else Inl e)"
  unfolding analyze_website_def Let_def
  by (rule except_Exception_Inl) (use assms in \<open>auto split: prod.splits\<close>)

lemma analyze_website_summary_error:
  assumes "snd (firecrawl_scrape_website up (firecrawl_service ctx)
                  [Info (''Analyzing website: '' @ u), Progress 0 3] u) = Inr (Val scrape_result)"
    and "dict_get (sr_text scrape_result) (Val []) = Val content" and "content \<noteq> []"
    and "dict_get (sr_metadata scrape_result) (Val empty_metadata) = Val md"
    and "dict_get (sr_links scrape_result) (Val []) = Val links"
    and "snd (groq_summarize_content up (groq_service ctx)
                [Info (''Analyzing website: '' @ u), Progress 0 3,
                 ScrapeCall (firecrawl_service ctx) u, Progress 1 3, Progress 2 3]
                content 500) = Inl e"
  shows "snd (analyze_website up ctx u True)
           = (if is_Exception e then Inr (Val (''Error analyzing website: '' @ str_exn e)) else Inl e)"
proof -
  have scraped: "firecrawl_scrape_website up (firecrawl_service ctx)
                  [Info (''Analyzing website: '' @ u), Progress 0 3] u
              = ([Info (''Analyzing website: '' @ u), Progress 0 3, ScrapeCall (firecrawl_service ctx) u],
                 Inr (Val scrape_result))"
    using assms(1) by (simp add: firecrawl_scrape_website_def)
  obtain tr3 where summarized:
    "groq_summarize_content up (groq_service ctx)
                [Info (''Analyzing website: '' @ u), Progress 0 3,
                 ScrapeCall (firecrawl_service ctx) u, Progress 1 3, Progress 2 3]
                content 500 = (tr3, Inl e)"
    using assms(6) by (metis prod.collapse)
  show ?thesis
    unfolding analyze_website_def Let_def
    by (rule except_Exception_Inl)
       (simp add: scraped [simplified] assms(2-5) py_len_def truthy_def py_str_def
          summarized [simplified])
qed

lemma research_topic_search_error:
  assumes "snd (firecrawl_search_web up (firecrawl_service ctx) (research_prelude topic depth) topic depth) = Inl e"
  shows "snd (research_topic up ctx topic depth)
           = (if is_Exception e then Inr (Val (''Error researching topic: '' @ str_exn e)) else Inl e)"
  unfolding research_topic_def Let_def research_prelude_def [symmetric]
  by (rule except_Exception_Inl) (use assms in \<open>auto split: prod.splits\<close>)

lemma research_topic_synthesis_error:
  assumes "search_reply up (research_prelude topic depth) (firecrawl_service ctx) topic depth
             = Reply 200 body (Inr (Val items))"
    and "items \<noteq> []"
    and "snd (research_gathered up ctx topic depth items) = Inr research_data"
    and "research_data \<noteq> []"
    and "snd (groq_generate_text up (groq_service ctx)
                (fst (research_gathered up ctx topic depth items))
                (synthesis_prompt topic (join ''\<newline>'' research_data))) = Inl e"
  shows "snd (research_topic up ctx topic depth)
           = (if is_Exception e then Inr (Val (''Error researching topic: '' @ str_exn e)) else Inl e)"
  using assms(3-5) by (simp add: research_topic_result [OF assms(1,2)])

text \<open>
  Claim C3, as the code has it. No resource or tool handler lets an exception of class
  \<open>Exception\<close> reach the protocol layer; an exception outside that class (a cancellation)
  is not caught and leaves the handler. What \<open>search_web\<close>, \<open>get_website_metadata\<close>,
  \<open>analyze_website\<close> and \<open>research_topic\<close> return is a string; \<open>get_website_content\<close>,
  \<open>generate_content\<close> and \<open>summarize_text\<close> hand on what the upstream sent, which is \<open>None\<close>
  when the body has \<open>null\<close> there. A client raises on every response whose status is not 200,
  an \<open>Exception\<close> with the status and the body in the message. When the client call that a
  handler makes itself raises \<open>e\<close> (the scrape or search of the three resources, the
  generation of \<open>generate_content\<close> and \<open>summarize_text\<close>, the scrape or the summary of
  \<open>analyze_website\<close>, the search or the final synthesis of \<open>research_topic\<close>), the handler
  returns "Error <operation>: <message of e>" when \<open>e\<close> is of class \<open>Exception\<close>, and lets \<open>e\<close>
  pass otherwise. The scrape and summary calls inside the loop of \<open>research_topic\<close> are not
  among them: their failures are kept as lines of the report.
\<close>

theorem handlers_return_error_strings:
  "(\<forall>x. snd (get_website_content up ctx u) = Inl x \<longrightarrow> \<not> is_Exception x)
   \<and> (\<forall>x. snd (search_web up int_builtin ctx q limit) = Inl x \<longrightarrow> \<not> is_Exception x)
   \<and> (\<forall>x. snd (get_website_metadata up ctx u) = Inl x \<longrightarrow> \<not> is_Exception x)
   \<and> (\<forall>x. snd (generate_content up ctx p) = Inl x \<longrightarrow> \<not> is_Exception x)
   \<and> (\<forall>x. snd (summarize_text up ctx content max_length) = Inl x \<longrightarrow> \<not> is_Exception x)
   \<and> (\<forall>x. snd (analyze_website up ctx u include_summary) = Inl x \<longrightarrow> \<not> is_Exception x)
   \<and> (\<forall>x. snd (research_topic up ctx topic depth) = Inl x \<longrightarrow> \<not> is_Exception x)
   \<and> (\<forall>v. snd (search_web up int_builtin ctx q limit) = Inr v \<longrightarrow> (\<exists>s. v = Val s))
   \<and> (\<forall>v. snd (get_website_metadata up ctx u) = Inr v \<longrightarrow> (\<exists>s. v = Val s))
   \<and> (\<forall>v. snd (analyze_website up ctx u include_summary) = Inr v \<longrightarrow> (\<exists>s. v = Val s))
   \<and> (\<forall>v. snd (research_topic up ctx topic depth) = Inr v \<longrightarrow> (\<exists>s. v = Val s))
   \<and> (snd (firecrawl_scrape_website up (firecrawl_service ctx) [Info (''Scraping website: '' @ u)] u)
          = Inr (Val scrape_result)
        \<longrightarrow> snd (get_website_content up ctx u)
              = Inr (dict_get (sr_text scrape_result) (Val ''No content found'')))
   \<and> (snd (groq_generate_text up (groq_service ctx)
               [Info (''Generating content with prompt: '' @ take 50 p @ ''...'')] p) = Inr v
        \<longrightarrow> snd (generate_content up ctx p) = Inr v)
   \<and> (snd (groq_summarize_content up (groq_service ctx)
               [Info (''Summarizing content of length '' @ str_int (int (length content))
                        @ '' with max length '' @ str_int max_length)]
               content max_length) = Inr v
        \<longrightarrow> snd (summarize_text up ctx content max_length) = Inr v)
   \<and> (code \<noteq> 200 \<longrightarrow>
          (scrape_reply up tr fc u = Reply code body d1 \<longrightarrow>
             snd (firecrawl_scrape_website up fc tr u)
               = Inl (Exception (''Firecrawl API error: '' @ str_int code @ '' - '' @ body)))
        \<and> (search_reply up tr fc q n = Reply code body d2 \<longrightarrow>
             snd (firecrawl_search_web up fc tr q n)
               = Inl (Exception (''Firecrawl API error: '' @ str_int code @ '' - '' @ body)))
        \<and> (generate_reply up tr gs p = Reply code body d3 \<longrightarrow>
             snd (groq_generate_text up gs tr p)
               = Inl (Exception (''Groq API error: '' @ str_int code @ '' - '' @ body))))
   \<and> (snd (firecrawl_scrape_website up (firecrawl_service ctx) [Info (''Scraping website: '' @ u)] u) = Inl e
        \<longrightarrow> snd (get_website_content up ctx u)
              = (if is_Exception e then Inr (Val (''Error scraping website: '' @ str_exn e)) else Inl e))
   \<and> (snd (firecrawl_search_web up (firecrawl_service ctx)
               [Info (''Searching web for: '' @ q @ '' with limit ''
                        @ str_int (parse_limit int_builtin (config ctx) limit))]
               q (parse_limit int_builtin (config ctx) limit)) = Inl e
        \<longrightarrow> snd (search_web up int_builtin ctx q limit)
              = (if is_Exception e then Inr (Val (''Error searching web: '' @ str_exn e)) else Inl e))
   \<and> (snd (firecrawl_scrape_website up (firecrawl_service ctx)
               [Info (''Getting metadata for website: '' @ u)] u) = Inl e
        \<longrightarrow> snd (get_website_metadata up ctx u)
              = (if is_Exception e then Inr (Val (''Error getting metadata: '' @ str_exn e)) else Inl e))
   \<and> (snd (groq_generate_text up (groq_service ctx)
               [Info (''Generating content with prompt: '' @ take 50 p @ ''...'')] p) = Inl e
        \<longrightarrow> snd (generate_content up ctx p)
              = (if is_Exception e then Inr (Val (''Error generating content: '' @ str_exn e)) else Inl e))
   \<and> (snd (groq_summarize_content up (groq_service ctx)
               [Info (''Summarizing content of length '' @ str_int (int (length content))
                        @ '' with max length '' @ str_int max_length)]
               content max_length) = Inl e
        \<longrightarrow> snd (summarize_text up ctx content max_length)
              = (if is_Exception e then Inr (Val (''Error summarizing content: '' @ str_exn e)) else Inl e))
   \<and> (snd (firecrawl_scrape_website up (firecrawl_service ctx)
               [Info (''Analyzing website: '' @ u), Progress 0 3] u) = Inl e
        \<longrightarrow> snd (analyze_website up ctx u include_summary)
              = (if is_Exception e then Inr (Val (''Error analyzing website: '' @ str_exn e)) else Inl e))
   \<and> (snd (firecrawl_scrape_website up (firecrawl_service ctx)
               [Info (''Analyzing website: '' @ u), Progress 0 3] u) = Inr (Val scrape_result)
        \<and> dict_get (sr_text scrape_result) (Val []) = Val page_text \<and> page_text \<noteq> []
        \<and> dict_get (sr_metadata scrape_result) (Val empty_metadata) = Val md
        \<and> dict_get (sr_links scrape_result) (Val []) = Val links
        \<and> snd (groq_summarize_content up (groq_service ctx)
                   [Info (''Analyzing website: '' @ u), Progress 0 3,
                    ScrapeCall (firecrawl_service ctx) u, Progress 1 3, Progress 2 3]
                   page_text 500) = Inl e
        \<longrightarrow> snd (analyze_website up ctx u True)
              = (if is_Exception e then Inr (Val (''Error analyzing website: '' @ str_exn e)) else Inl e))
   \<and> (snd (firecrawl_search_web up (firecrawl_service ctx) (research_prelude topic depth) topic depth)
          = Inl e
        \<longrightarrow> snd (research_topic up ctx topic depth)
              = (if is_Exception e then Inr (Val (''Error researching topic: '' @ str_exn e)) else Inl e))
   \<and> (search_reply up (research_prelude topic depth) (firecrawl_service ctx) topic depth
          = Reply 200 body (Inr (Val items))
        \<and> items \<noteq> []
        \<and> snd (research_gathered up ctx topic depth items) = Inr research_data
        \<and> research_data \<noteq> []
        \<and> snd (groq_generate_text up (groq_service ctx)
                   (fst (research_gathered up ctx topic depth items))
                   (synthesis_prompt topic (join ''\<newline>'' research_data))) = Inl e
        \<longrightarrow> snd (research_topic up ctx topic depth)
              = (if is_Exception e then Inr (Val (''Error researching topic: '' @ str_exn e)) else Inl e))"
  apply (intro conjI impI allI)
  subgoal by (rule get_website_content_no_escape)
  subgoal by (rule search_web_no_escape)
  subgoal by (rule get_website_metadata_no_escape)
  subgoal by (rule generate_content_no_escape)
  subgoal by (rule summarize_text_no_escape)
  subgoal by (rule analyze_website_no_escape)
  subgoal by (rule research_topic_no_escape)
  subgoal by (rule search_web_string)
  subgoal by (rule get_website_metadata_string)
  subgoal by (rule analyze_website_string)
  subgoal by (rule research_topic_string)
  subgoal by (rule get_website_content_value)
  subgoal by (rule generate_content_value)
  subgoal by (rule summarize_text_value)
  subgoal by (rule scrape_non_200)
  subgoal by (rule search_non_200)
  subgoal by (rule generate_non_200)
  subgoal by (rule get_website_content_error)
  subgoal by (rule search_web_error)
  subgoal by (rule get_website_metadata_error)
  subgoal by (rule generate_content_error)
  subgoal by (rule summarize_text_error)
  subgoal by (rule analyze_website_scrape_error)
  subgoal by (elim conjE) (rule analyze_website_summary_error)
  subgoal by (rule research_topic_search_error)
  subgoal by (elim conjE) (rule research_topic_synthesis_error)
  done

theorem handlers_return_error_strings_witness:
  "snd (firecrawl_scrape_website outage (firecrawl_service demo_ctx) [] ''x'')
     = Inl (Exception ''Firecrawl API error: 503 - unavailable'')
   \<and> snd (firecrawl_search_web outage (firecrawl_service demo_ctx) [] ''rust'' 3)
     = Inl (Exception ''Firecrawl API error: 503 - unavailable'')
   \<and> snd (groq_generate_text outage (groq_service demo_ctx) [] ''hello'')
     = Inl (Exception ''Groq API error: 503 - unavailable'')
   \<and> snd (get_website_content outage demo_ctx ''x'')
     = Inr (Val ''Error scraping website: Firecrawl API error: 503 - unavailable'')
   \<and> snd (search_web outage py_int demo_ctx ''rust'' ''3'')
     = Inr (Val ''Error searching web: Firecrawl API error: 503 - unavailable'')
   \<and> snd (get_website_metadata outage demo_ctx ''x'')
     = Inr (Val ''Error getting metadata: Firecrawl API error: 503 - unavailable'')
   \<and> snd (generate_content outage demo_ctx ''hello'')
     = Inr (Val ''Error generating content: Groq API error: 503 - unavailable'')
   \<and> snd (summarize_text outage demo_ctx ''long text'' 500)
     = Inr (Val ''Error summarizing content: Groq API error: 503 - unavailable'')
   \<and> snd (analyze_website outage demo_ctx ''x'' False)
     = Inr (Val ''Error analyzing website: Firecrawl API error: 503 - unavailable'')
   \<and> snd (analyze_website (failing_generation (demo_up [])) demo_ctx ''a'' True)
     = Inr (Val ''Error analyzing website: Groq API error: 429 - rate limited'')
   \<and> snd (research_topic outage demo_ctx ''rust'' 1)
     = Inr (Val ''Error researching topic: Firecrawl API error: 503 - unavailable'')
   \<and> snd (research_topic (failing_generation (demo_up [hit ''T'' ''a''])) demo_ctx ''rust'' 1)
     = Inr (Val ''Error researching topic: Groq API error: 429 - rate limited'')
   \<and> snd (get_website_content (demo_up []) demo_ctx ''cancel'') = Inl (BaseException ''cancelled'')
   \<and> \<not> is_Exception (BaseException ''cancelled'')
   \<and> snd (get_website_content (demo_up []) demo_ctx ''null'') = Inr Null
   \<and> snd (get_website_content (demo_up []) demo_ctx ''blank'') = Inr (Val ''No content found'')
   \<and> snd (generate_content (demo_up []) demo_ctx ''hello'') = Inr (Val ''OK'')
   \<and> snd (summarize_text (demo_up []) demo_ctx ''long text'' 500) = Inr (Val ''OK'')"
proof -
  let ?e = "Exception ''Firecrawl API error: 503 - unavailable''"
  let ?g = "Exception ''Groq API error: 503 - unavailable''"
  let ?r = "Exception ''Groq API error: 429 - rate limited''"
  let ?c = "BaseException ''cancelled''"
  let ?fc = "firecrawl_service demo_ctx"
  let ?gs = "groq_service demo_ctx"
  let ?up = "failing_generation (demo_up [hit ''T'' ''a''])"
  let ?lines = "[''Error analyzing a: Groq API error: 429 - rate limited'']"
  note T = handlers_return_error_strings
    [where up = outage
       and ctx = demo_ctx
       and u = "''x''"
       and int_builtin = py_int
       and q = "''rust''"
       and limit = "''3''"
       and p = "''hello''"
       and content = "''long text''"
       and max_length = 500
       and include_summary = False
       and topic = "''rust''"
       and depth = 1
       and scrape_result = "page ''text of a''"
       and v = "Val ''OK''"
       and code = 503
       and tr = "[]"
       and fc = ?fc
       and gs = ?gs
       and n = 3
       and body = "''unavailable''"
       and ?d1.0 = "Inl (Exception ''no body'')"
       and ?d2.0 = "Inl (Exception ''no body'')"
       and ?d3.0 = "Inl (Exception ''no body'')"
       and e = ?e
       and page_text = "''text of a''"
       and md = empty_metadata
       and links = "[]"
       and items = "[hit ''T'' ''a'']"
       and research_data = ?lines]
  note G = handlers_return_error_strings
    [where up = outage
       and ctx = demo_ctx
       and u = "''x''"
       and int_builtin = py_int
       and q = "''rust''"
       and limit = "''3''"
       and p = "''hello''"
       and content = "''long text''"
       and max_length = 500
       and include_summary = False
       and topic = "''rust''"
       and depth = 1
       and scrape_result = "page ''text of a''"
       and v = "Val ''OK''"
       and code = 503
       and tr = "[]"
       and fc = ?fc
       and gs = ?gs
       and n = 3
       and body = "''unavailable''"
       and ?d1.0 = "Inl (Exception ''no body'')"
       and ?d2.0 = "Inl (Exception ''no body'')"
       and ?d3.0 = "Inl (Exception ''no body'')"
       and e = ?g
       and page_text = "''text of a''"
       and md = empty_metadata
       and links = "[]"
       and items = "[hit ''T'' ''a'']"
       and research_data = ?lines]
  note A = handlers_return_error_strings
    [where up = "failing_generation (demo_up [])"
       and ctx = demo_ctx
       and u = "''a''"
       and int_builtin = py_int
       and q = "''rust''"
       and limit = "''3''"
       and p = "''hello''"
       and content = "''long text''"
       and max_length = 500
       and include_summary = False
       and topic = "''rust''"
       and depth = 1
       and scrape_result = "page ''text of a''"
       and v = "Val ''OK''"
       and code = 503
       and tr = "[]"
       and fc = ?fc
       and gs = ?gs
       and n = 3
       and body = "''unavailable''"
       and ?d1.0 = "Inl (Exception ''no body'')"
       and ?d2.0 = "Inl (Exception ''no body'')"
       and ?d3.0 = "Inl (Exception ''no body'')"
       and e = ?r
       and page_text = "''text of a''"
       and md = empty_metadata
       and links = "[]"
       and items = "[hit ''T'' ''a'']"
       and research_data = ?lines]
  note R = handlers_return_error_strings
    [where up = ?up
       and ctx = demo_ctx
       and u = "''x''"
       and int_builtin = py_int
       and q = "''rust''"
       and limit = "''3''"
       and p = "''hello''"
       and content = "''long text''"
       and max_length = 500
       and include_summary = False
       and topic = "''rust''"
       and depth = 1
       and scrape_result = "page ''text of a''"
       and v = "Val ''OK''"
       and code = 503
       and tr = "[]"
       and fc = ?fc
       and gs = ?gs
       and n = 3
       and body = "''{..}''"
       and ?d1.0 = "Inl (Exception ''no body'')"
       and ?d2.0 = "Inl (Exception ''no body'')"
       and ?d3.0 = "Inl (Exception ''no body'')"
       and e = ?r
       and page_text = "''text of a''"
       and md = empty_metadata
       and links = "[]"
       and items = "[hit ''T'' ''a'']"
       and research_data = ?lines]
  note C = handlers_return_error_strings
    [where up = "demo_up []"
       and ctx = demo_ctx
       and u = "''cancel''"
       and int_builtin = py_int
       and q = "''rust''"
       and limit = "''3''"
       and p = "''hello''"
       and content = "''long text''"
       and max_length = 500
       and include_summary = False
       and topic = "''rust''"
       and depth = 1
       and scrape_result = "page ''text of a''"
       and v = "Val ''OK''"
       and code = 503
       and tr = "[]"
       and fc = ?fc
       and gs = ?gs
       and n = 3
       and body = "''unavailable''"
       and ?d1.0 = "Inl (Exception ''no body'')"
       and ?d2.0 = "Inl (Exception ''no body'')"
       and ?d3.0 = "Inl (Exception ''no body'')"
       and e = ?c
       and page_text = "''text of a''"
       and md = empty_metadata
       and links = "[]"
       and items = "[hit ''T'' ''a'']"
       and research_data = ?lines]
  note N = handlers_return_error_strings
    [where up = "demo_up []"
       and ctx = demo_ctx
       and u = "''null''"
       and int_builtin = py_int
       and q = "''rust''"
       and limit = "''3''"
       and p = "''hello''"
       and content = "''long text''"
       and max_length = 500
       and include_summary = False
       and topic = "''rust''"
       and depth = 1
       and scrape_result = "\<lparr>sr_text = Some Null, sr_metadata = None, sr_links = None\<rparr>"
       and v = "Val ''OK''"
       and code = 503
       and tr = "[]"
       and fc = ?fc
       and gs = ?gs
       and n = 3
       and body = "''unavailable''"
       and ?d1.0 = "Inl (Exception ''no body'')"
       and ?d2.0 = "Inl (Exception ''no body'')"
       and ?d3.0 = "Inl (Exception ''no body'')"
       and e = ?e
       and page_text = "''text of a''"
       and md = empty_metadata
       and links = "[]"
       and items = "[hit ''T'' ''a'']"
       and research_data = ?lines]
  note B = handlers_return_error_strings
    [where up = "demo_up []"
       and ctx = demo_ctx
       and u = "''blank''"
       and int_builtin = py_int
       and q = "''rust''"
       and limit = "''3''"
       and p = "''hello''"
       and content = "''long text''"
       and max_length = 500
       and include_summary = False
       and topic = "''rust''"
       and depth = 1
       and scrape_result = "\<lparr>sr_text = None, sr_metadata = None, sr_links = None\<rparr>"
       and v = "Val ''OK''"
       and code = 503
       and tr = "[]"
       and fc = ?fc
       and gs = ?gs
       and n = 3
       and body = "''unavailable''"
       and ?d1.0 = "Inl (Exception ''no body'')"
       and ?d2.0 = "Inl (Exception ''no body'')"
       and ?d3.0 = "Inl (Exception ''no body'')"
       and e = ?e
       and page_text = "''text of a''"
       and md = empty_metadata
       and links = "[]"
       and items = "[hit ''T'' ''a'']"
       and research_data = ?lines]
  note V = handlers_return_error_strings
    [where up = "demo_up []"
       and ctx = demo_ctx
       and u = "''x''"
       and int_builtin = py_int
       and q = "''rust''"
       and limit = "''3''"
       and p = "''hello''"
       and content = "''long text''"
       and max_length = 500
       and include_summary = False
       and topic = "''rust''"
       and depth = 1
       and scrape_result = "page ''text of a''"
       and v = "Val ''OK''"
       and code = 503
       and tr = "[]"
       and fc = ?fc
       and gs = ?gs
       and n = 3
       and body = "''unavailable''"
       and ?d1.0 = "Inl (Exception ''no body'')"
       and ?d2.0 = "Inl (Exception ''no body'')"
       and ?d3.0 = "Inl (Exception ''no body'')"
       and e = ?e
       and page_text = "''text of a''"
       and md = empty_metadata
       and links = "[]"
       and items = "[hit ''T'' ''a'']"
       and research_data = ?lines]
  have c: "(503::int) \<noteq> 200" by simp
  have s: "str_int 503 = ''503''" by code_simp
  have r1: "scrape_reply outage [] ?fc ''x'' = Reply 503 ''unavailable'' (Inl (Exception ''no body''))"
    by (simp add: outage_def)
  have r2: "search_reply outage [] ?fc ''rust'' 3 = Reply 503 ''unavailable'' (Inl (Exception ''no body''))"
    by (simp add: outage_def)
  have r3: "generate_reply outage [] ?gs ''hello'' = Reply 503 ''unavailable'' (Inl (Exception ''no body''))"
    by (simp add: outage_def)
  have h1: "snd (firecrawl_scrape_website outage ?fc [Info (''Scraping website: '' @ ''x'')] ''x'') = Inl ?e"
    by code_simp
  have h2: "snd (firecrawl_search_web outage ?fc
               [Info (''Searching web for: '' @ ''rust'' @ '' with limit ''
                        @ str_int (parse_limit py_int (config demo_ctx) ''3''))]
               ''rust'' (parse_limit py_int (config demo_ctx) ''3'')) = Inl ?e"
    by code_simp
  have h3: "snd (firecrawl_scrape_website outage ?fc [Info (''Getting metadata for website: '' @ ''x'')] ''x'')
              = Inl ?e"
    by code_simp
  have h4: "snd (groq_generate_text outage ?gs
               [Info (''Generating content with prompt: '' @ take 50 ''hello'' @ ''...'')] ''hello'') = Inl ?g"
    by code_simp
  have h5: "snd (groq_summarize_content outage ?gs
               [Info (''Summarizing content of length '' @ str_int (int (length ''long text''))
                        @ '' with max length '' @ str_int 500)]
               ''long text'' 500) = Inl ?g"
    by code_simp
  have h6: "snd (firecrawl_scrape_website outage ?fc [Info (''Analyzing website: '' @ ''x''), Progress 0 3] ''x'')
              = Inl ?e"
    by code_simp
  have h7: "snd (firecrawl_scrape_website (failing_generation (demo_up [])) ?fc
                  [Info (''Analyzing website: '' @ ''a''), Progress 0 3] ''a'') = Inr (Val (page ''text of a''))
            \<and> dict_get (sr_text (page ''text of a'')) (Val []) = Val ''text of a'' \<and> ''text of a'' \<noteq> []
            \<and> dict_get (sr_metadata (page ''text of a'')) (Val empty_metadata) = Val empty_metadata
            \<and> dict_get (sr_links (page ''text of a'')) (Val []) = Val []
            \<and> snd (groq_summarize_content (failing_generation (demo_up [])) ?gs
                      [Info (''Analyzing website: '' @ ''a''), Progress 0 3,
                       ScrapeCall ?fc ''a'', Progress 1 3, Progress 2 3]
                      ''text of a'' 500) = Inl ?r"
    by code_simp
  have h8: "snd (firecrawl_search_web outage ?fc (research_prelude ''rust'' 1) ''rust'' 1) = Inl ?e"
    by code_simp
  have h9: "search_reply ?up (research_prelude ''rust'' 1) ?fc ''rust'' 1
              = Reply 200 ''{..}'' (Inr (Val [hit ''T'' ''a'']))
            \<and> [hit ''T'' ''a''] \<noteq> []
            \<and> snd (research_gathered ?up demo_ctx ''rust'' 1 [hit ''T'' ''a'']) = Inr ?lines
            \<and> ?lines \<noteq> []
            \<and> snd (groq_generate_text ?up ?gs
                      (fst (research_gathered ?up demo_ctx ''rust'' 1 [hit ''T'' ''a'']))
                      (synthesis_prompt ''rust'' (join ''\<newline>'' ?lines)))
                = Inl ?r"
    by code_simp
  have h10: "snd (firecrawl_scrape_website (demo_up []) ?fc [Info (''Scraping website: '' @ ''cancel'')] ''cancel'')
               = Inl ?c"
    by code_simp
  have h11: "snd (firecrawl_scrape_website (demo_up []) ?fc [Info (''Scraping website: '' @ ''null'')] ''null'')
               = Inr (Val \<lparr>sr_text = Some Null, sr_metadata = None, sr_links = None\<rparr>)"
    by code_simp
  have h12: "snd (firecrawl_scrape_website (demo_up []) ?fc [Info (''Scraping website: '' @ ''blank'')] ''blank'')
               = Inr (Val \<lparr>sr_text = None, sr_metadata = None, sr_links = None\<rparr>)"
    by code_simp
  have h13: "snd (groq_generate_text (demo_up []) ?gs
               [Info (''Generating content with prompt: '' @ take 50 ''hello'' @ ''...'')] ''hello'')
               = Inr (Val ''OK'')"
    by code_simp
  have h14: "snd (groq_summarize_content (demo_up []) ?gs
               [Info (''Summarizing content of length '' @ str_int (int (length ''long text''))
                        @ '' with max length '' @ str_int 500)]
               ''long text'' 500) = Inr (Val ''OK'')"
    by code_simp
  have "snd (firecrawl_scrape_website outage ?fc [] ''x'')
     = Inl (Exception (''Firecrawl API error: '' @ str_int 503 @ '' - '' @ ''unavailable''))"
    by (rule T [THEN conjunct2, THEN conjunct2, THEN conjunct2, THEN conjunct2, THEN conjunct2, THEN conjunct2, THEN conjunct2, THEN conjunct2, THEN conjunct2, THEN conjunct2, THEN conjunct2, THEN conjunct2, THEN conjunct2, THEN conjunct2, THEN conjunct1, THEN mp, OF c, THEN conjunct1, THEN mp, OF r1])
  then have w1: "snd (firecrawl_scrape_website outage ?fc [] ''x'') = Inl ?e"
    by (simp add: s)
  have "snd (firecrawl_search_web outage ?fc [] ''rust'' 3)
     = Inl (Exception (''Firecrawl API error: '' @ str_int 503 @ '' - '' @ ''unavailable''))"
    by (rule T [THEN conjunct2, THEN conjunct2, THEN conjunct2, THEN conjunct2, THEN conjunct2, THEN conjunct2, THEN conjunct2, THEN conjunct2, THEN conjunct2, THEN conjunct2, THEN conjunct2, THEN conjunct2, THEN conjunct2, THEN conjunct2, THEN conjunct1, THEN mp, OF c, THEN conjunct2, THEN conjunct1, THEN mp, OF r2])
  then have w2: "snd (firecrawl_search_web outage ?fc [] ''rust'' 3) = Inl ?e"
    by (simp add: s)
  have "snd (groq_generate_text outage ?gs [] ''hello'')
     = Inl (Exception (''Groq API error: '' @ str_int 503 @ '' - '' @ ''unavailable''))"
    by (rule T [THEN conjunct2, THEN conjunct2, THEN conjunct2, THEN conjunct2, THEN conjunct2, THEN conjunct2, THEN conjunct2, THEN conjunct2, THEN conjunct2, THEN conjunct2, THEN conjunct2, THEN conjunct2, THEN conjunct2, THEN conjunct2, THEN conjunct1, THEN mp, OF c, THEN conjunct2, THEN conjunct2, THEN mp, OF r3])
  then have w3: "snd (groq_generate_text outage ?gs [] ''hello'') = Inl ?g"
    by (simp add: s)
  have "snd (get_website_content outage demo_ctx ''x'')
          = (if is_Exception ?e then Inr (Val (''Error scraping website: '' @ str_exn ?e)) else Inl ?e)"
    by (rule T [THEN conjunct2, THEN conjunct2, THEN conjunct2, THEN conjunct2, THEN conjunct2, THEN conjunct2, THEN conjunct2, THEN conjunct2, THEN conjunct2, THEN conjunct2, THEN conjunct2, THEN conjunct2, THEN conjunct2, THEN conjunct2, THEN conjunct2, THEN conjunct1, THEN mp, OF h1])
  then have w4: "snd (get_website_content outage demo_ctx ''x'')
     = Inr (Val ''Error scraping website: Firecrawl API error: 503 - unavailable'')"
    by simp
  have "snd (search_web outage py_int demo_ctx ''rust'' ''3'')
          = (if is_Exception ?e then Inr (Val (''Error searching web: '' @ str_exn ?e)) else Inl ?e)"
    by (rule T [THEN conjunct2, THEN conjunct2, THEN conjunct2, THEN conjunct2, THEN conjunct2, THEN conjunct2, THEN conjunct2, THEN conjunct2, THEN conjunct2, THEN conjunct2, THEN conjunct2, THEN conjunct2, THEN conjunct2, THEN conjunct2, THEN conjunct2, THEN conjunct2, THEN conjunct1, THEN mp, OF h2])
  then have w5: "snd (search_web outage py_int demo_ctx ''rust'' ''3'')
     = Inr (Val ''Error searching web: Firecrawl API error: 503 - unavailable'')"
    by simp
  have "snd (get_website_metadata outage demo_ctx ''x'')
          = (if is_Exception ?e then Inr (Val (''Error getting metadata: '' @ str_exn ?e)) else Inl ?e)"
    by (rule T [THEN conjunct2, THEN conjunct2, THEN conjunct2, THEN conjunct2, THEN conjunct2, THEN conjunct2, THEN conjunct2, THEN conjunct2, THEN conjunct2, THEN conjunct2, THEN conjunct2, THEN conjunct2, THEN conjunct2, THEN conjunct2, THEN conjunct2, THEN conjunct2, THEN conjunct2, THEN conjunct1, THEN mp, OF h3])
  then have w6: "snd (get_website_metadata outage demo_ctx ''x'')
     = Inr (Val ''Error getting metadata: Firecrawl API error: 503 - unavailable'')"
    by simp
  have "snd (generate_content outage demo_ctx ''hello'')
          = (if is_Exception ?g then Inr (Val (''Error generating content: '' @ str_exn ?g)) else Inl ?g)"
    by (rule G [THEN conjunct2, THEN conjunct2, THEN conjunct2, THEN conjunct2, THEN conjunct2, THEN conjunct2, THEN conjunct2, THEN conjunct2, THEN conjunct2, THEN conjunct2, THEN conjunct2, THEN conjunct2, THEN conjunct2, THEN conjunct2, THEN conjunct2, THEN conjunct2, THEN conjunct2, THEN conjunct2, THEN conjunct1, THEN mp, OF h4])
  then have w7: "snd (generate_content outage demo_ctx ''hello'')
     = Inr (Val ''Error generating content: Groq API error: 503 - unavailable'')"
    by simp
  have "snd (summarize_text outage demo_ctx ''long text'' 500)
          = (if is_Exception ?g then Inr (Val (''Error summarizing content: '' @ str_exn ?g)) else Inl ?g)"
    by (rule G [THEN conjunct2, THEN conjunct2, THEN conjunct2, THEN conjunct2, THEN conjunct2, THEN conjunct2, THEN conjunct2, THEN conjunct2, THEN conjunct2, THEN conjunct2, THEN conjunct2, THEN conjunct2, THEN conjunct2, THEN conjunct2, THEN conjunct2, THEN conjunct2, THEN conjunct2, THEN conjunct2, THEN conjunct2, THEN conjunct1, THEN mp, OF h5])
  then have w8: "snd (summarize_text outage demo_ctx ''long text'' 500)
     = Inr (Val ''Error summarizing content: Groq API error: 503 - unavailable'')"
    by simp
  have "snd (analyze_website outage demo_ctx ''x'' False)
          = (if is_Exception ?e then Inr (Val (''Error analyzing website: '' @ str_exn ?e)) else Inl ?e)"
    by (rule T [THEN conjunct2, THEN conjunct2, THEN conjunct2, THEN conjunct2, THEN conjunct2, THEN conjunct2, THEN conjunct2, THEN conjunct2, THEN conjunct2, THEN conjunct2, THEN conjunct2, THEN conjunct2, THEN conjunct2, THEN conjunct2, THEN conjunct2, THEN conjunct2, THEN conjunct2, THEN conjunct2, THEN conjunct2, THEN conjunct2, THEN conjunct1, THEN mp, OF h6])
  then have w9: "snd (analyze_website outage demo_ctx ''x'' False)
     = Inr (Val ''Error analyzing website: Firecrawl API error: 503 - unavailable'')"
    by simp
  have "snd (analyze_website (failing_generation (demo_up [])) demo_ctx ''a'' True)
          = (if is_Exception ?r then Inr (Val (''Error analyzing website: '' @ str_exn ?r)) else Inl ?r)"
    by (rule A [THEN conjunct2, THEN conjunct2, THEN conjunct2, THEN conjunct2, THEN conjunct2, THEN conjunct2, THEN conjunct2, THEN conjunct2, THEN conjunct2, THEN conjunct2, THEN conjunct2, THEN conjunct2, THEN conjunct2, THEN conjunct2, THEN conjunct2, THEN conjunct2, THEN conjunct2, THEN conjunct2, THEN conjunct2, THEN conjunct2, THEN conjunct2, THEN conjunct1, THEN mp, OF h7])
  then have w10: "snd (analyze_website (failing_generation (demo_up [])) demo_ctx ''a'' True)
     = Inr (Val ''Error analyzing website: Groq API error: 429 - rate limited'')"
    by simp
  have "snd (research_topic outage demo_ctx ''rust'' 1)
          = (if is_Exception ?e then Inr (Val (''Error researching topic: '' @ str_exn ?e)) else Inl ?e)"
    by (rule T [THEN conjunct2, THEN conjunct2, THEN conjunct2, THEN conjunct2, THEN conjunct2, THEN conjunct2, THEN conjunct2, THEN conjunct2, THEN conjunct2, THEN conjunct2, THEN conjunct2, THEN conjunct2, THEN conjunct2, THEN conjunct2, THEN conjunct2, THEN conjunct2, THEN conjunct2, THEN conjunct2, THEN conjunct2, THEN conjunct2, THEN conjunct2, THEN conjunct2, THEN conjunct1, THEN mp, OF h8])
  then have w11: "snd (research_topic outage demo_ctx ''rust'' 1)
     = Inr (Val ''Error researching topic: Firecrawl API error: 503 - unavailable'')"
    by simp
  have "snd (research_topic ?up demo_ctx ''rust'' 1)
          = (if is_Exception ?r then Inr (Val (''Error researching topic: '' @ str_exn ?r)) else Inl ?r)"
    by (rule R [THEN conjunct2, THEN conjunct2, THEN conjunct2, THEN conjunct2, THEN conjunct2, THEN conjunct2, THEN conjunct2, THEN conjunct2, THEN conjunct2, THEN conjunct2, THEN conjunct2, THEN conjunct2, THEN conjunct2, THEN conjunct2, THEN conjunct2, THEN conjunct2, THEN conjunct2, THEN conjunct2, THEN conjunct2, THEN conjunct2, THEN conjunct2, THEN conjunct2, THEN conjunct2, THEN mp, OF h9])
  then have w12: "snd (research_topic ?up demo_ctx ''rust'' 1)
     = Inr (Val ''Error researching topic: Groq API error: 429 - rate limited'')"
    by simp
  have "snd (get_website_content (demo_up []) demo_ctx ''cancel'')
          = (if is_Exception ?c then Inr (Val (''Error scraping website: '' @ str_exn ?c)) else Inl ?c)"
    by (rule C [THEN conjunct2, THEN conjunct2, THEN conjunct2, THEN conjunct2, THEN conjunct2, THEN conjunct2, THEN conjunct2, THEN conjunct2, THEN conjunct2, THEN conjunct2, THEN conjunct2, THEN conjunct2, THEN conjunct2, THEN conjunct2, THEN conjunct2, THEN conjunct1, THEN mp, OF h10])
  then have w13: "snd (get_website_content (demo_up []) demo_ctx ''cancel'') = Inl ?c"
    by simp
  have w14: "\<not> is_Exception ?c"
    by (rule C [THEN conjunct1, THEN spec, THEN mp, OF w13])
  have "snd (get_website_content (demo_up []) demo_ctx ''null'')
          = Inr (dict_get (sr_text \<lparr>sr_text = Some Null, sr_metadata = None, sr_links = None\<rparr>)
                   (Val ''No content found''))"
    by (rule N [THEN conjunct2, THEN conjunct2, THEN conjunct2, THEN conjunct2, THEN conjunct2, THEN conjunct2, THEN conjunct2, THEN conjunct2, THEN conjunct2, THEN conjunct2, THEN conjunct2, THEN conjunct1, THEN mp, OF h11])
  then have w15: "snd (get_website_content (demo_up []) demo_ctx ''null'') = Inr Null"
    by (simp add: dict_get_def)
  have "snd (get_website_content (demo_up []) demo_ctx ''blank'')
          = Inr (dict_get (sr_text \<lparr>sr_text = None, sr_metadata = None, sr_links = None\<rparr>)
                   (Val ''No content found''))"
    by (rule B [THEN conjunct2, THEN conjunct2, THEN conjunct2, THEN conjunct2, THEN conjunct2, THEN conjunct2, THEN conjunct2, THEN conjunct2, THEN conjunct2, THEN conjunct2, THEN conjunct2, THEN conjunct1, THEN mp, OF h12])
  then have w16: "snd (get_website_content (demo_up []) demo_ctx ''blank'') = Inr (Val ''No content found'')"
    by (simp add: dict_get_def)
  have w17: "snd (generate_content (demo_up []) demo_ctx ''hello'') = Inr (Val ''OK'')"
    by (rule V [THEN conjunct2, THEN conjunct2, THEN conjunct2, THEN conjunct2, THEN conjunct2, THEN conjunct2, THEN conjunct2, THEN conjunct2, THEN conjunct2, THEN conjunct2, THEN conjunct2, THEN conjunct2, THEN conjunct1, THEN mp, OF h13])
  have w18: "snd (summarize_text (demo_up []) demo_ctx ''long text'' 500) = Inr (Val ''OK'')"
    by (rule V [THEN conjunct2, THEN conjunct2, THEN conjunct2, THEN conjunct2, THEN conjunct2, THEN conjunct2, THEN conjunct2, THEN conjunct2, THEN conjunct2, THEN conjunct2, THEN conjunct2, THEN conjunct2, THEN conjunct2, THEN conjunct1, THEN mp, OF h14])
  show ?thesis
    using w1 w2 w3 w4 w5 w6 w7 w8 w9 w10 w11 w12 w13 w14 w15 w16 w17 w18 by blast
qed

text \<open>
  Claim C3 as stated fails. In this run of \<open>research_topic\<close> the scrape request is answered
  with status 500, and the handler returns the research document, which does not begin
  with "Error". A scrape that is cancelled raises an exception that \<open>get_website_content\<close>
  does not catch. And a scrape body whose text is \<open>null\<close> makes \<open>get_website_content\<close> return
  \<open>None\<close>, not a string.
\<close>

theorem research_topic_inline_failure_counterexample:
  "fst (research_topic (demo_up [hit ''T'' ''bad'']) demo_ctx ''rust'' 1)
     = [Info ''Researching topic: rust with depth 1'',
        Info ''Searching web...'',
        Progress 0 2,
        SearchCall (firecrawl_service demo_ctx) ''rust'' 1,
        Info ''Analyzing result 1: bad'',
        Progress 1 2,
        ScrapeCall (firecrawl_service demo_ctx) ''bad'',
        GenerateCall (groq_service demo_ctx)
          ''Based on the following research on 'rust', provide a comprehensive analysis:\<newline>\<newline>Error analyzing bad: Firecrawl API error: 500 - down'']
   \<and> scrape_reply (demo_up [hit ''T'' ''bad''])
         [Info ''Researching topic: rust with depth 1'',
          Info ''Searching web...'',
          Progress 0 2,
          SearchCall (firecrawl_service demo_ctx) ''rust'' 1,
          Info ''Analyzing result 1: bad'',
          Progress 1 2]
         (firecrawl_service demo_ctx) ''bad''
       = Reply 500 ''down'' (Inl (Exception ''no body''))
   \<and> snd (research_topic (demo_up [hit ''T'' ''bad'']) demo_ctx ''rust'' 1)
       = Inr (Val ''# Research on: rust\<newline>\<newline>OK\<newline>\<newline>## Sources\<newline>\<newline>Error analyzing bad: Firecrawl API error: 500 - down'')
   \<and> \<not> prefix ''Error''
         ''# Research on: rust\<newline>\<newline>OK\<newline>\<newline>## Sources\<newline>\<newline>Error analyzing bad: Firecrawl API error: 500 - down''
   \<and> get_website_content (demo_up []) demo_ctx ''cancel''
       = ([Info ''Scraping website: cancel'', ScrapeCall (firecrawl_service demo_ctx) ''cancel''],
          Inl (BaseException ''cancelled''))
   \<and> get_website_content (demo_up []) demo_ctx ''null''
       = ([Info ''Scraping website: null'', ScrapeCall (firecrawl_service demo_ctx) ''null''],
          Inr Null)"
proof -
  have a: "fst (research_topic (demo_up [hit ''T'' ''bad'']) demo_ctx ''rust'' 1)
     = [Info ''Researching topic: rust with depth 1'',
        Info ''Searching web...'',
        Progress 0 2,
        SearchCall (firecrawl_service demo_ctx) ''rust'' 1,
        Info ''Analyzing result 1: bad'',
        Progress 1 2,
        ScrapeCall (firecrawl_service demo_ctx) ''bad'',
        GenerateCall (groq_service demo_ctx)
          ''Based on the following research on 'rust', provide a comprehensive analysis:\<newline>\<newline>Error analyzing bad: Firecrawl API error: 500 - down'']"
    by code_simp
  have b: "scrape_reply (demo_up [hit ''T'' ''bad''])
         [Info ''Researching topic: rust with depth 1'',
          Info ''Searching web...'',
          Progress 0 2,
          SearchCall (firecrawl_service demo_ctx) ''rust'' 1,
          Info ''Analyzing result 1: bad'',
          Progress 1 2]
         (firecrawl_service demo_ctx) ''bad''
       = Reply 500 ''down'' (Inl (Exception ''no body''))"
    by (simp add: demo_up_def)
  have c: "snd (research_topic (demo_up [hit ''T'' ''bad'']) demo_ctx ''rust'' 1)
       = Inr (Val ''# Research on: rust\<newline>\<newline>OK\<newline>\<newline>## Sources\<newline>\<newline>Error analyzing bad: Firecrawl API error: 500 - down'')"
    by code_simp
  have d: "\<not> prefix ''Error''
         ''# Research on: rust\<newline>\<newline>OK\<newline>\<newline>## Sources\<newline>\<newline>Error analyzing bad: Firecrawl API error: 500 - down''"
    by simp
  have e: "get_website_content (demo_up []) demo_ctx ''cancel''
       = ([Info ''Scraping website: cancel'', ScrapeCall (firecrawl_service demo_ctx) ''cancel''],
          Inl (BaseException ''cancelled''))"
    by code_simp
  have f: "get_website_content (demo_up []) demo_ctx ''null''
       = ([Info ''Scraping website: null'', ScrapeCall (firecrawl_service demo_ctx) ''null''],
          Inr Null)"
    by code_simp
  show ?thesis using a b c d e f by blast
qed

subsection \<open>A failing source does not stop the research\<close>

lemma loop_outcomes_reached_iff:
  "k < length xs \<Longrightarrow>
     loop_outcomes up ctx depth xs tr ! k \<noteq> NotReached
       \<longleftrightarrow> (\<forall>i<k. outcome_abort (loop_outcomes up ctx depth xs tr ! i) = None)"
proof (induction xs arbitrary: tr k)
  case Nil
  then show ?case by simp
next
  case (Cons x xs)
  obtain i result where x: "x = (i, result)" by (cases x)
  show ?case
  proof (cases k)
    case 0
    then show ?thesis by (simp add: x item_outcome_reached)
  next
    case (Suc m)
    with Cons.prems have m: "m < length xs" by simp
    show ?thesis
    proof (cases "outcome_abort (item_outcome up ctx depth i result tr)")
      case None
      have "(\<forall>n<Suc m. outcome_abort
               ((item_outcome up ctx depth i result tr
                  # loop_outcomes up ctx depth xs (fst (analyze_result up ctx depth i result tr))) ! n) = None)
            \<longleftrightarrow> (\<forall>n<m. outcome_abort
               (loop_outcomes up ctx depth xs (fst (analyze_result up ctx depth i result tr)) ! n) = None)"
        using None by (auto simp: less_Suc_eq_0_disj)
      with Cons.IH [OF m, of "fst (analyze_result up ctx depth i result tr)"]
      show ?thesis by (simp add: x Suc None)
    next
      case (Some e)
      have "\<not> (\<forall>n<Suc m. outcome_abort
               ((item_outcome up ctx depth i result tr # replicate (length xs) NotReached) ! n) = None)"
        using Some by (auto intro: exI [of _ 0])
      then show ?thesis using m by (simp add: x Suc Some)
    qed
  qed
qed

lemma research_outcomes_reached_iff:
  assumes "k < length items"
  shows "research_outcomes up ctx topic depth items ! k \<noteq> NotReached
           \<longleftrightarrow> (\<forall>i<k. outcome_abort (research_outcomes up ctx topic depth items ! i) = None)"
  unfolding research_outcomes_def
  by (rule loop_outcomes_reached_iff) (simp add: assms)

lemma gathered_lines_nth:
  assumes "first_abort (research_outcomes up ctx topic depth items) = None" and "j < length items"
  shows "set (outcome_lines j (research_outcomes up ctx topic depth items ! j))
           \<subseteq> set (research_lines up ctx topic depth items)"
proof -
  let ?os = "research_outcomes up ctx topic depth items"
  have "(j, ?os ! j) \<in> set (enumerate 0 ?os)"
    using assms(2) by (simp add: in_set_enumerate_eq length_research_outcomes)
  then show ?thesis
    by (fastforce simp: research_lines_outcomes [OF assms(1)])
qed

lemma gathered_events_nth:
  assumes "k < length items"
  shows "set (outcome_events ctx depth k (research_outcomes up ctx topic depth items ! k))
           \<subseteq> set (fst (research_gathered up ctx topic depth items))"
proof -
  let ?os = "research_outcomes up ctx topic depth items"
  have "(k, ?os ! k) \<in> set (enumerate 0 ?os)"
    using assms by (simp add: in_set_enumerate_eq length_research_outcomes)
  then show ?thesis
    by (fastforce simp: gathered_trace)
qed

lemma effects_subset: "set (effects tr) \<subseteq> set tr"
  by (auto simp: effects_def)

lemma processed_item_events:
  assumes search: "search_reply up (research_prelude topic depth) (firecrawl_service ctx) topic depth
             = Reply 200 body (Inr (Val items))"
    and k: "k < length items"
    and reached: "research_outcomes up ctx topic depth items ! k \<noteq> NotReached"
    and v: "items ! k = Val item" "dict_get (item_url item) Null = Val v" "v \<noteq> []"
  shows "Progress (int k + 1) (depth + 1) \<in> set (fst (research_topic up ctx topic depth))
       \<and> ScrapeCall (firecrawl_service ctx) v \<in> set (fst (research_topic up ctx topic depth))"
proof -
  let ?E = "outcome_events ctx depth k (research_outcomes up ctx topic depth items ! k)"
  from research_item_effects [OF k, of ctx depth up topic] reached v
  obtain rest where "effects ?E = [Progress (int k + 1) (depth + 1), ScrapeCall (firecrawl_service ctx) v] @ rest"
    by auto
  then have "Progress (int k + 1) (depth + 1) \<in> set (effects ?E)
             \<and> ScrapeCall (firecrawl_service ctx) v \<in> set (effects ?E)"
    by simp
  with effects_subset [of ?E] gathered_events_nth [OF k, of ctx depth up topic]
  have "Progress (int k + 1) (depth + 1) \<in> set (fst (research_gathered up ctx topic depth items))
        \<and> ScrapeCall (firecrawl_service ctx) v \<in> set (fst (research_gathered up ctx topic depth items))"
    by blast
  moreover have "items \<noteq> []" using k by auto
  ultimately show ?thesis
    by (simp add: research_topic_trace [OF search])
qed

lemma failed_outcome:
  assumes "item_outcome up ctx depth i result tr = ScrapeFailed u e
           \<or> item_outcome up ctx depth i result tr = SummarizeFailed u c e"
  shows "is_Exception e \<and> (\<exists>item. result = Val item \<and> dict_get (item_url item) Null = Val u)"
  using item_outcome_cases [of result up ctx depth i tr] assms by auto

text \<open>
  Claim C4, as the code has it. Take any run of \<open>research_topic\<close> whose search succeeded and
  in which the scrape or the summary of the result at index \<open>j\<close> failed with \<open>e\<close>, an exception
  of class \<open>Exception\<close> (the inner \<open>try\<close> catches no other). The loop goes on: every later
  result with a URL gets its progress report and its scrape request, unless an exception
  left the loop at a result in between. When no exception left the loop, the line
  "Error analyzing <url>: <message of e>" is among the gathered lines, the last request of the
  run is the synthesis over the gathered lines (whether or not another source succeeded),
  and when that request is answered the handler returns the research document, whose
  Sources section holds that line.
\<close>

theorem research_topic_source_failure_tolerated:
  assumes search: "search_reply up (research_prelude topic depth) (firecrawl_service ctx) topic depth
             = Reply 200 body (Inr (Val items))"
    and j: "j < length items"
    and failed: "research_outcomes up ctx topic depth items ! j = ScrapeFailed u e
                 \<or> research_outcomes up ctx topic depth items ! j = SummarizeFailed u c e"
  shows "is_Exception e
       \<and> (\<exists>item. items ! j = Val item \<and> dict_get (item_url item) Null = Val u)
       \<and> (\<forall>k item v. j < k \<and> k < length items
              \<and> (\<forall>i. j < i \<and> i < k \<longrightarrow>
                     outcome_abort (research_outcomes up ctx topic depth items ! i) = None)
              \<and> items ! k = Val item \<and> dict_get (item_url item) Null = Val v \<and> v \<noteq> [] \<longrightarrow>
              Progress (int k + 1) (depth + 1) \<in> set (fst (research_topic up ctx topic depth))
            \<and> ScrapeCall (firecrawl_service ctx) v \<in> set (fst (research_topic up ctx topic depth)))
       \<and> (first_abort (research_outcomes up ctx topic depth items) = None \<longrightarrow>
              (''Error analyzing '' @ u @ '': '' @ str_exn e)
                 \<in> set (research_lines up ctx topic depth items)
            \<and> last (fst (research_topic up ctx topic depth))
                = GenerateCall (groq_service ctx)
                    (synthesis_prompt topic (join ''\<newline>'' (research_lines up ctx topic depth items)))
            \<and> (\<forall>analysis.
                  snd (groq_generate_text up (groq_service ctx)
                         (fst (research_gathered up ctx topic depth items))
                         (synthesis_prompt topic
                            (join ''\<newline>'' (research_lines up ctx topic depth items))))
                    = Inr analysis \<longrightarrow>
                  snd (research_topic up ctx topic depth)
                    = Inr (Val (''# Research on: '' @ topic @ ''\<newline>\<newline>'' @ py_str analysis
                                 @ ''\<newline>\<newline>## Sources\<newline>\<newline>''
                                 @ join ''\<newline>'' (research_lines up ctx topic depth items)))))"
proof -
  let ?os = "research_outcomes up ctx topic depth items"
  let ?G = "research_gathered up ctx topic depth items"
  let ?L = "research_lines up ctx topic depth items"
  have nonempty: "items \<noteq> []" using j by auto
  have here: "?os ! j \<noteq> NotReached" and quiet: "outcome_abort (?os ! j) = None"
    using failed by auto
  from research_outcomes_nth [OF j, of up ctx topic depth] here obtain tr' where
    oc: "?os ! j = item_outcome up ctx depth j (items ! j) tr'"
    by blast
  have cls: "is_Exception e \<and> (\<exists>item. items ! j = Val item \<and> dict_get (item_url item) Null = Val u)"
    using failed_outcome [of up ctx depth j "items ! j" tr' u e c] failed oc by simp
  have later: "Progress (int k + 1) (depth + 1) \<in> set (fst (research_topic up ctx topic depth))
            \<and> ScrapeCall (firecrawl_service ctx) v \<in> set (fst (research_topic up ctx topic depth))"
    if k: "j < k" "k < length items"
      and between: "\<forall>i. j < i \<and> i < k \<longrightarrow> outcome_abort (?os ! i) = None"
      and v: "items ! k = Val item" "dict_get (item_url item) Null = Val v" "v \<noteq> []"
    for k item v
  proof -
    have before: "\<forall>i<j. outcome_abort (?os ! i) = None"
      using research_outcomes_reached_iff [OF j, of up ctx topic depth] here by simp
    have "\<forall>i<k. outcome_abort (?os ! i) = None"
    proof (intro allI impI)
      fix i assume "i < k"
      then consider "i < j" | "i = j" | "j < i \<and> i < k" by linarith
      then show "outcome_abort (?os ! i) = None"
        using before quiet between by cases auto
    qed
    then have "?os ! k \<noteq> NotReached"
      using research_outcomes_reached_iff [OF k(2), of up ctx topic depth] by simp
    from processed_item_events [OF search k(2) this v] show ?thesis .
  qed
  have synth: "(''Error analyzing '' @ u @ '': '' @ str_exn e) \<in> set ?L
            \<and> last (fst (research_topic up ctx topic depth))
                = GenerateCall (groq_service ctx) (synthesis_prompt topic (join ''\<newline>'' ?L))
            \<and> (\<forall>analysis.
                  snd (groq_generate_text up (groq_service ctx) (fst ?G)
                         (synthesis_prompt topic (join ''\<newline>'' ?L))) = Inr analysis \<longrightarrow>
                  snd (research_topic up ctx topic depth)
                    = Inr (Val (''# Research on: '' @ topic @ ''\<newline>\<newline>'' @ py_str analysis
                                 @ ''\<newline>\<newline>## Sources\<newline>\<newline>'' @ join ''\<newline>'' ?L)))"
    if na: "first_abort ?os = None"
  proof -
    have "outcome_lines j (?os ! j) = [''Error analyzing '' @ u @ '': '' @ str_exn e]"
      using failed by auto
    with gathered_lines_nth [OF na j]
    have line: "(''Error analyzing '' @ u @ '': '' @ str_exn e) \<in> set ?L" by simp
    then have data: "?L \<noteq> []" by auto
    have g: "snd ?G = Inr ?L"
      using na by (simp add: research_lines_def gathered_result)
    have "last (fst (research_topic up ctx topic depth))
                = GenerateCall (groq_service ctx) (synthesis_prompt topic (join ''\<newline>'' ?L))"
      using data by (simp add: research_topic_trace [OF search nonempty] g)
    moreover have "\<forall>analysis.
                  snd (groq_generate_text up (groq_service ctx) (fst ?G)
                         (synthesis_prompt topic (join ''\<newline>'' ?L))) = Inr analysis \<longrightarrow>
                  snd (research_topic up ctx topic depth)
                    = Inr (Val (''# Research on: '' @ topic @ ''\<newline>\<newline>'' @ py_str analysis
                                 @ ''\<newline>\<newline>## Sources\<newline>\<newline>'' @ join ''\<newline>'' ?L))"
      using data by (simp add: research_topic_result [OF search nonempty] g)
    ultimately show ?thesis using line by blast
  qed
  from cls later synth show ?thesis by blast
qed

theorem research_topic_source_failure_tolerated_witness:
  "is_Exception (Exception ''Firecrawl API error: 500 - down'')
   \<and> research_outcomes (demo_up [hit ''T1'' ''a'', hit ''T2'' ''bad'', hit ''T3'' ''b''])
         demo_ctx ''rust'' 3 [hit ''T1'' ''a'', hit ''T2'' ''bad'', hit ''T3'' ''b''] ! 1
       = ScrapeFailed ''bad'' (Exception ''Firecrawl API error: 500 - down'')
   \<and> Progress 3 4
       \<in> set (fst (research_topic (demo_up [hit ''T1'' ''a'', hit ''T2'' ''bad'', hit ''T3'' ''b''])
                      demo_ctx ''rust'' 3))
   \<and> ScrapeCall (firecrawl_service demo_ctx) ''b''
       \<in> set (fst (research_topic (demo_up [hit ''T1'' ''a'', hit ''T2'' ''bad'', hit ''T3'' ''b''])
                      demo_ctx ''rust'' 3))
   \<and> ''Error analyzing bad: Firecrawl API error: 500 - down''
       \<in> set (research_lines (demo_up [hit ''T1'' ''a'', hit ''T2'' ''bad'', hit ''T3'' ''b''])
                 demo_ctx ''rust'' 3 [hit ''T1'' ''a'', hit ''T2'' ''bad'', hit ''T3'' ''b''])
   \<and> last (fst (research_topic (demo_up [hit ''T1'' ''a'', hit ''T2'' ''bad'', hit ''T3'' ''b''])
                   demo_ctx ''rust'' 3))
       = GenerateCall (groq_service demo_ctx)
           ''Based on the following research on 'rust', provide a comprehensive analysis:\<newline>\<newline>Source 1: T1\<newline>URL: a\<newline>Summary: OK\<newline>\<newline>Error analyzing bad: Firecrawl API error: 500 - down\<newline>Source 3: T3\<newline>URL: b\<newline>Summary: OK\<newline>''
   \<and> snd (research_topic (demo_up [hit ''T1'' ''a'', hit ''T2'' ''bad'', hit ''T3'' ''b''])
             demo_ctx ''rust'' 3)
       = Inr (Val ''# Research on: rust\<newline>\<newline>OK\<newline>\<newline>## Sources\<newline>\<newline>Source 1: T1\<newline>URL: a\<newline>Summary: OK\<newline>\<newline>Error analyzing bad: Firecrawl API error: 500 - down\<newline>Source 3: T3\<newline>URL: b\<newline>Summary: OK\<newline>'')"
proof -
  let ?items = "[hit ''T1'' ''a'', hit ''T2'' ''bad'', hit ''T3'' ''b'']"
  let ?up = "demo_up ?items"
  let ?e = "Exception ''Firecrawl API error: 500 - down''"
  let ?b = "\<lparr>item_title = Some (Val ''T3''), item_url = Some (Val ''b''), item_snippet = None\<rparr>"
  have h: "search_reply ?up (research_prelude ''rust'' 3) (firecrawl_service demo_ctx) ''rust'' 3
             = Reply 200 ''{..}'' (Inr (Val ?items))"
    by (simp add: demo_up_def)
  have j: "(1::nat) < length ?items" by simp
  have o: "research_outcomes ?up demo_ctx ''rust'' 3 ?items ! 1 = ScrapeFailed ''bad'' ?e"
    by code_simp
  then have f: "research_outcomes ?up demo_ctx ''rust'' 3 ?items ! 1 = ScrapeFailed ''bad'' ?e
                \<or> research_outcomes ?up demo_ctx ''rust'' 3 ?items ! 1 = SummarizeFailed ''bad'' [] ?e"
    by (rule disjI1)
  note W = research_topic_source_failure_tolerated [OF h j f]
  have na: "first_abort (research_outcomes ?up demo_ctx ''rust'' 3 ?items) = None"
    by code_simp
  have p: "(1::nat) < 2 \<and> (2::nat) < length ?items
           \<and> (\<forall>i. 1 < i \<and> i < 2 \<longrightarrow>
                  outcome_abort (research_outcomes ?up demo_ctx ''rust'' 3 ?items ! i) = None)
           \<and> ?items ! 2 = Val ?b \<and> dict_get (item_url ?b) Null = Val ''b'' \<and> ''b'' \<noteq> []"
    by (auto simp: hit_def dict_get_def)
  have w1: "is_Exception ?e"
    by (rule W [THEN conjunct1])
  have w3: "Progress 3 4 \<in> set (fst (research_topic ?up demo_ctx ''rust'' 3))
            \<and> ScrapeCall (firecrawl_service demo_ctx) ''b'' \<in> set (fst (research_topic ?up demo_ctx ''rust'' 3))"
    using W [THEN conjunct2, THEN conjunct2, THEN conjunct1, THEN spec, THEN spec, THEN spec, THEN mp, OF p]
    by simp
  note S = W [THEN conjunct2, THEN conjunct2, THEN conjunct2, THEN mp, OF na]
  have w4: "''Error analyzing bad: Firecrawl API error: 500 - down''
              \<in> set (research_lines ?up demo_ctx ''rust'' 3 ?items)"
    using S [THEN conjunct1] by simp
  have sp: "synthesis_prompt ''rust'' (join ''\<newline>'' (research_lines ?up demo_ctx ''rust'' 3 ?items))
              = ''Based on the following research on 'rust', provide a comprehensive analysis:\<newline>\<newline>Source 1: T1\<newline>URL: a\<newline>Summary: OK\<newline>\<newline>Error analyzing bad: Firecrawl API error: 500 - down\<newline>Source 3: T3\<newline>URL: b\<newline>Summary: OK\<newline>''"
    by code_simp
  have w5: "last (fst (research_topic ?up demo_ctx ''rust'' 3))
       = GenerateCall (groq_service demo_ctx)
           ''Based on the following research on 'rust', provide a comprehensive analysis:\<newline>\<newline>Source 1: T1\<newline>URL: a\<newline>Summary: OK\<newline>\<newline>Error analyzing bad: Firecrawl API error: 500 - down\<newline>Source 3: T3\<newline>URL: b\<newline>Summary: OK\<newline>''"
    by (rule S [THEN conjunct2, THEN conjunct1, unfolded sp])
  have gen: "snd (groq_generate_text ?up (groq_service demo_ctx)
                    (fst (research_gathered ?up demo_ctx ''rust'' 3 ?items))
                    (synthesis_prompt ''rust''
                       (join ''\<newline>'' (research_lines ?up demo_ctx ''rust'' 3 ?items))))
               = Inr (Val ''OK'')"
    by code_simp
  have doc: "''# Research on: '' @ ''rust'' @ ''\<newline>\<newline>'' @ py_str (Val ''OK'')
               @ ''\<newline>\<newline>## Sources\<newline>\<newline>''
               @ join ''\<newline>'' (research_lines ?up demo_ctx ''rust'' 3 ?items)
             = ''# Research on: rust\<newline>\<newline>OK\<newline>\<newline>## Sources\<newline>\<newline>Source 1: T1\<newline>URL: a\<newline>Summary: OK\<newline>\<newline>Error analyzing bad: Firecrawl API error: 500 - down\<newline>Source 3: T3\<newline>URL: b\<newline>Summary: OK\<newline>''"
    by code_simp
  have w6: "snd (research_topic ?up demo_ctx ''rust'' 3)
       = Inr (Val ''# Research on: rust\<newline>\<newline>OK\<newline>\<newline>## Sources\<newline>\<newline>Source 1: T1\<newline>URL: a\<newline>Summary: OK\<newline>\<newline>Error analyzing bad: Firecrawl API error: 500 - down\<newline>Source 3: T3\<newline>URL: b\<newline>Summary: OK\<newline>'')"
    by (rule S [THEN conjunct2, THEN conjunct2, THEN spec, THEN mp, OF gen, unfolded doc])
  show ?thesis using w1 o w3 w4 w5 w6 by blast
qed

text \<open>
  Claim C4 as stated fails for an exception outside class \<open>Exception\<close>. The search returns two
  results; the scrape of the first is cancelled. The exception is not caught inside the
  loop: no line is recorded for the source, the second result is never scraped, there is
  no synthesis request, and the exception leaves the handler.
\<close>

theorem research_topic_cancelled_source_counterexample:
  "scrape_reply (demo_up [hit ''T1'' ''cancel'', hit ''T2'' ''a''])
      [Info ''Researching topic: rust with depth 2'',
       Info ''Searching web...'',
       Progress 0 3,
       SearchCall (firecrawl_service demo_ctx) ''rust'' 2,
       Info ''Analyzing result 1: cancel'',
       Progress 1 3]
      (firecrawl_service demo_ctx) ''cancel''
     = NoReply (BaseException ''cancelled'')
   \<and> research_topic (demo_up [hit ''T1'' ''cancel'', hit ''T2'' ''a'']) demo_ctx ''rust'' 2
       = ([Info ''Researching topic: rust with depth 2'',
           Info ''Searching web...'',
           Progress 0 3,
           SearchCall (firecrawl_service demo_ctx) ''rust'' 2,
           Info ''Analyzing result 1: cancel'',
           Progress 1 3,
           ScrapeCall (firecrawl_service demo_ctx) ''cancel''],
          Inl (BaseException ''cancelled''))
   \<and> ScrapeCall (firecrawl_service demo_ctx) ''a''
       \<notin> set (fst (research_topic (demo_up [hit ''T1'' ''cancel'', hit ''T2'' ''a'']) demo_ctx ''rust'' 2))
   \<and> research_loop (demo_up [hit ''T1'' ''cancel'', hit ''T2'' ''a'']) demo_ctx 2
         (enumerate 0 [hit ''T1'' ''cancel'', hit ''T2'' ''a''])
         [Info ''Researching topic: rust with depth 2'',
          Info ''Searching web...'',
          Progress 0 3,
          SearchCall (firecrawl_service demo_ctx) ''rust'' 2] []
       = ([Info ''Researching topic: rust with depth 2'',
           Info ''Searching web...'',
           Progress 0 3,
           SearchCall (firecrawl_service demo_ctx) ''rust'' 2,
           Info ''Analyzing result 1: cancel'',
           Progress 1 3,
           ScrapeCall (firecrawl_service demo_ctx) ''cancel''],
          Inl (BaseException ''cancelled''))"
proof -
  have a: "scrape_reply (demo_up [hit ''T1'' ''cancel'', hit ''T2'' ''a''])
      [Info ''Researching topic: rust with depth 2'',
       Info ''Searching web...'',
       Progress 0 3,
       SearchCall (firecrawl_service demo_ctx) ''rust'' 2,
       Info ''Analyzing result 1: cancel'',
       Progress 1 3]
      (firecrawl_service demo_ctx) ''cancel''
     = NoReply (BaseException ''cancelled'')"
    by (simp add: demo_up_def)
  have b: "research_topic (demo_up [hit ''T1'' ''cancel'', hit ''T2'' ''a'']) demo_ctx ''rust'' 2
       = ([Info ''Researching topic: rust with depth 2'',
           Info ''Searching web...'',
           Progress 0 3,
           SearchCall (firecrawl_service demo_ctx) ''rust'' 2,
           Info ''Analyzing result 1: cancel'',
           Progress 1 3,
           ScrapeCall (firecrawl_service demo_ctx) ''cancel''],
          Inl (BaseException ''cancelled''))"
    by code_simp
  have c: "ScrapeCall (firecrawl_service demo_ctx) ''a''
       \<notin> set (fst (research_topic (demo_up [hit ''T1'' ''cancel'', hit ''T2'' ''a'']) demo_ctx ''rust'' 2))"
    by code_simp
  have d: "research_loop (demo_up [hit ''T1'' ''cancel'', hit ''T2'' ''a'']) demo_ctx 2
         (enumerate 0 [hit ''T1'' ''cancel'', hit ''T2'' ''a''])
         [Info ''Researching topic: rust with depth 2'',
          Info ''Searching web...'',
          Progress 0 3,
          SearchCall (firecrawl_service demo_ctx) ''rust'' 2] []
       = ([Info ''Researching topic: rust with depth 2'',
           Info ''Searching web...'',
           Progress 0 3,
           SearchCall (firecrawl_service demo_ctx) ''rust'' 2,
           Info ''Analyzing result 1: cancel'',
           Progress 1 3,
           ScrapeCall (firecrawl_service demo_ctx) ''cancel''],
          Inl (BaseException ''cancelled''))"
    by code_simp
  show ?thesis using a b c d by blast
qed

end
